theory Spec2Isabelle
  imports Main
begin

section \<open>Errors and configuration\<close>

text \<open>
  Every failure of the TypeScript code is a thrown \<open>Error\<close> carrying a message.
\<close>

datatype error = Error string

text \<open>
  The token utilities, which the service imports from \<open>utils/jwt\<close>, read four variables of
  \<open>process.env\<close>. A variable that is unset is \<open>None\<close>; \<open>x || d\<close> takes the default \<open>d\<close>
  for an unset and for an empty string. With \<open>NODE_ENV\<close> set to \<open>production\<close> the module
  refuses to load unless both secrets are set and 32 characters long; the model is of the
  module once loaded.
\<close>

record env =
  env_JWT_SECRET :: "string option"
  env_JWT_REFRESH_SECRET :: "string option"
  env_JWT_EXPIRES_IN :: "string option"
  env_JWT_REFRESH_EXPIRES_IN :: "string option"

definition orDefault :: "string option \<Rightarrow> string \<Rightarrow> string" where
  "orDefault v d = (case v of None \<Rightarrow> d | Some s \<Rightarrow> if s = [] then d else s)"

definition JWT_EXPIRES_IN :: "env \<Rightarrow> string" where
  "JWT_EXPIRES_IN e = orDefault (env_JWT_EXPIRES_IN e) ''15m''"

definition JWT_REFRESH_EXPIRES_IN :: "env \<Rightarrow> string" where
  "JWT_REFRESH_EXPIRES_IN e = orDefault (env_JWT_REFRESH_EXPIRES_IN e) ''7d''"

definition getJwtSecret :: "env \<Rightarrow> string" where
  "getJwtSecret e = orDefault (env_JWT_SECRET e) ''dev-jwt-secret-minimum-32-characters-long''"

definition getRefreshSecret :: "env \<Rightarrow> string" where
  "getRefreshSecret e =
     orDefault (env_JWT_REFRESH_SECRET e) ''dev-refresh-secret-minimum-32-characters''"

section \<open>Duration strings\<close>

text \<open>
  Both parsers match the regular expression \<open>/^(\d+)([smhd])$/\<close>: one or more ASCII digits
  followed by exactly one unit letter, and nothing else. \<open>matchDuration\<close> returns the two
  capture groups, or \<open>None\<close> where \<open>String.match\<close> returns \<open>null\<close>.
\<close>

definition isDigit :: "char \<Rightarrow> bool" where
  "isDigit c = (c \<in> set ''0123456789'')"

definition isUnit :: "char \<Rightarrow> bool" where
  "isUnit c = (c \<in> set ''smhd'')"

definition matchDuration :: "string \<Rightarrow> (string \<times> char) option" where
  "matchDuration s =
     (case rev s of
        [] \<Rightarrow> None
      | u # rds \<Rightarrow>
          if rds \<noteq> [] \<and> list_all isDigit rds \<and> isUnit u then Some (rev rds, u) else None)"

text \<open>
  \<open>parseInt(digits, 10)\<close> on a string of decimal digits. The numbers of the code are
  doubles, which are exact on the integers below \<open>2^53\<close>; the model computes with natural
  numbers, which agree with them there.
\<close>

definition digitValue :: "char \<Rightarrow> nat" where
  "digitValue c = of_char c - 48"

definition parseInt :: "string \<Rightarrow> nat" where
  "parseInt ds = foldl (\<lambda>n c. 10 * n + digitValue c) 0 ds"

text \<open>The table \<open>multipliers\<close> of \<open>parseExpiresIn\<close>.\<close>

definition multipliers :: "char \<rightharpoonup> nat" where
  "multipliers =
     [CHR ''s'' \<mapsto> 1, CHR ''m'' \<mapsto> 60, CHR ''h'' \<mapsto> 3600, CHR ''d'' \<mapsto> 86400]"

text \<open>
  \<open>parseExpiresIn\<close> of the token utilities, the parser of the token issuer. It throws on
  a string that does not match. A unit outside the table would make the product \<open>NaN\<close>;
  the regular expression admits only the four keys (lemma \<open>matchDuration_unit\<close>), so the
  last branch is never taken.
\<close>

definition parseExpiresIn :: "string \<Rightarrow> error + nat" where
  "parseExpiresIn expiresIn =
     (case matchDuration expiresIn of
        None \<Rightarrow> Inl (Error ''Invalid expires format. Use format: 1s, 1m, 1h, 1d'')
      | Some (ds, unit) \<Rightarrow>
          Inr (parseInt ds * (case multipliers unit of Some k \<Rightarrow> k | None \<Rightarrow> 0)))"

text \<open>
  \<open>parseExpirationToSeconds\<close> of \<open>routes/auth.ts\<close>, which computes the \<open>expiresIn\<close>
  field of the responses. It returns 900 on a string that does not match.
\<close>

definition parseExpirationToSeconds :: "string \<Rightarrow> nat" where
  "parseExpirationToSeconds ex =
     (case matchDuration ex of
        None \<Rightarrow> 900
      | Some (ds, unit) \<Rightarrow>
          let v = parseInt ds in
          if unit = CHR ''s'' then v
          else if unit = CHR ''m'' then v * 60
          else if unit = CHR ''h'' then v * 3600
          else if unit = CHR ''d'' then v * 86400
          else 900)"


section \<open>JSON Web Tokens (\<open>utils/jwt\<close>)\<close>

text \<open>
  The payload of a token. \<open>AccessTokenPayload\<close> carries \<open>email\<close>, \<open>RefreshTokenPayload\<close>
  does not; \<open>iat\<close> and \<open>exp\<close> are seconds since the epoch.
\<close>

record jwt_payload =
  userId :: string
  email :: "string option"
  type :: string
  iat :: nat
  exp :: nat

text \<open>
  \<open>sign\<close> and \<open>verify\<close> come from the library \<open>hono/jwt\<close>. \<open>sign payload secret\<close> returns
  the string \<open>header.payload.signature\<close>, where the signature is the HMAC-SHA256 of the two
  first parts under the secret: a function of the payload and the secret, with no random
  part. The model is symbolic: a token string is represented by the payload and the secret
  it was signed with (two token strings are equal exactly when both agree, and no string
  verifies under a secret it was not signed with); a string that is no such token is
  \<open>Opaque\<close>.
\<close>

datatype token = JWT jwt_payload string | Opaque string

definition sign :: "jwt_payload \<Rightarrow> string \<Rightarrow> token" where
  "sign payload secret = JWT payload secret"

text \<open>
  \<open>verify token secret\<close> at the clock reading \<open>nowMs\<close> (\<open>Date.now()\<close>, milliseconds). It
  throws on a malformed token, on \<open>exp <= now\<close>, on \<open>now < iat\<close> (both in whole seconds, and
  only for a claim that is present and not zero) and on a signature mismatch; \<open>None\<close> stands
  for every one of these exceptions, which the callers do not tell apart.
\<close>

definition verify :: "token \<Rightarrow> string \<Rightarrow> nat \<Rightarrow> jwt_payload option" where
  "verify tok secret nowMs =
     (case tok of
        Opaque s \<Rightarrow> None
      | JWT payload k \<Rightarrow>
          let now = nowMs div 1000 in
          if exp payload \<noteq> 0 \<and> exp payload \<le> now then None
          else if iat payload \<noteq> 0 \<and> now < iat payload then None
          else if k \<noteq> secret then None
          else Some payload)"

definition generateAccessToken :: "env \<Rightarrow> string \<Rightarrow> string \<Rightarrow> nat \<Rightarrow> error + token" where
  "generateAccessToken e uid em nowMs =
     (case parseExpiresIn (JWT_EXPIRES_IN e) of
        Inl err \<Rightarrow> Inl err
      | Inr expiresInSeconds \<Rightarrow>
          let now = nowMs div 1000 in
          Inr (sign \<lparr>userId = uid, email = Some em, type = ''access'', iat = now,
                     exp = now + expiresInSeconds\<rparr> (getJwtSecret e)))"

text \<open>The second component is \<open>expiresAt\<close>, a \<open>Date\<close>, in milliseconds since the epoch.\<close>

definition generateRefreshToken :: "env \<Rightarrow> string \<Rightarrow> nat \<Rightarrow> error + token \<times> nat" where
  "generateRefreshToken e uid nowMs =
     (case parseExpiresIn (JWT_REFRESH_EXPIRES_IN e) of
        Inl err \<Rightarrow> Inl err
      | Inr expiresInSeconds \<Rightarrow>
          let now = nowMs div 1000;
              tok = sign \<lparr>userId = uid, email = None, type = ''refresh'', iat = now,
                          exp = now + expiresInSeconds\<rparr> (getRefreshSecret e);
              expiresAt = (now + expiresInSeconds) * 1000
          in Inr (tok, expiresAt))"

text \<open>
  The \<open>catch\<close> of both verifiers replaces every exception, the one of \<open>verify\<close> and the
  "Invalid token type" thrown inside the \<open>try\<close>, by one message.
\<close>

definition verifyAccessToken :: "env \<Rightarrow> token \<Rightarrow> nat \<Rightarrow> error + jwt_payload" where
  "verifyAccessToken e tok nowMs =
     (case verify tok (getJwtSecret e) nowMs of
        None \<Rightarrow> Inl (Error ''Invalid or expired access token'')
      | Some payload \<Rightarrow>
          if type payload \<noteq> ''access'' then Inl (Error ''Invalid or expired access token'')
          else Inr payload)"

definition verifyRefreshToken :: "env \<Rightarrow> token \<Rightarrow> nat \<Rightarrow> error + jwt_payload" where
  "verifyRefreshToken e tok nowMs =
     (case verify tok (getRefreshSecret e) nowMs of
        None \<Rightarrow> Inl (Error ''Invalid or expired refresh token'')
      | Some payload \<Rightarrow>
          if type payload \<noteq> ''refresh'' then Inl (Error ''Invalid or expired refresh token'')
          else Inr payload)"

section \<open>The database (\<open>db/schema.ts\<close>)\<close>

text \<open>
  The tables the authentication flow reads and writes, each a list of rows. Of \<open>users\<close>
  the columns kept are those the flow reads or writes; \<open>createdAt\<close> and \<open>updatedAt\<close>, set
  by the database, are left out of every table. Timestamps are milliseconds since the
  epoch. \<open>PublicUser\<close> is \<open>User\<close> without \<open>password\<close>.
\<close>

datatype user_status = ACTIVE | INACTIVE | SUSPENDED

record public_user =
  user_id :: string
  user_email :: string
  user_username :: string
  user_name :: string
  user_status :: user_status
  user_lastLoginAt :: "nat option"

record user = public_user +
  user_password :: string

record refresh_token =
  rt_id :: string
  rt_userId :: string
  rt_token :: token
  rt_expiresAt :: nat

record role =
  role_id :: string
  role_name :: string

record permission =
  perm_id :: string
  perm_action :: string
  perm_resource :: string

text \<open>\<open>userRoles\<close> holds pairs (userId, roleId), \<open>rolePermissions\<close> pairs (roleId, permissionId).\<close>

record db =
  users :: "user list"
  refreshTokens :: "refresh_token list"
  roles :: "role list"
  userRoles :: "(string \<times> string) list"
  permissions :: "permission list"
  rolePermissions :: "(string \<times> string) list"

text \<open>
  The constraints of the schema make an \<open>insert\<close> throw: the primary key \<open>id\<close>, the
  \<open>unique()\<close> columns, and the foreign key to \<open>users.id\<close>. The message is PostgreSQL's
  and no property below depends on its text.
\<close>

definition uniqueViolation :: "string \<Rightarrow> error" where
  "uniqueViolation c = Error (''duplicate key value violates unique constraint '' @ c)"

definition foreignKeyViolation :: "string \<Rightarrow> error" where
  "foreignKeyViolation c = Error (''insert violates foreign key constraint '' @ c)"

definition insertRefreshToken :: "db \<Rightarrow> refresh_token \<Rightarrow> error + db" where
  "insertRefreshToken d r =
     (if rt_id r \<in> set (map rt_id (refreshTokens d)) then
        Inl (uniqueViolation ''refresh_tokens_pkey'')
      else if rt_token r \<in> set (map rt_token (refreshTokens d)) then
        Inl (uniqueViolation ''refresh_tokens_token_unique'')
      else if rt_userId r \<notin> set (map user_id (users d)) then
        Inl (foreignKeyViolation ''refresh_tokens_userId_users_id_fk'')
      else Inr (d\<lparr>refreshTokens := refreshTokens d @ [r]\<rparr>))"

definition insertUser :: "db \<Rightarrow> user \<Rightarrow> error + db" where
  "insertUser d u =
     (if user_id u \<in> set (map user_id (users d)) then Inl (uniqueViolation ''users_pkey'')
      else if user_email u \<in> set (map user_email (users d)) then
        Inl (uniqueViolation ''users_email_unique'')
      else if user_username u \<in> set (map user_username (users d)) then
        Inl (uniqueViolation ''users_username_unique'')
      else Inr (d\<lparr>users := users d @ [u]\<rparr>))"

section \<open>The user service (\<open>services/user.service.ts\<close>)\<close>

text \<open>\<open>publicUserSchema.parse\<close>: the row without its password.\<close>

definition publicUser :: "user \<Rightarrow> public_user" where
  "publicUser u =
     \<lparr>user_id = user_id u, user_email = user_email u, user_username = user_username u,
      user_name = user_name u, user_status = user_status u,
      user_lastLoginAt = user_lastLoginAt u\<rparr>"

record user_with_roles = public_user +
  roleNames :: "string list"
  permissionNames :: "string list"

text \<open>A query with \<open>limit(1)\<close> destructured as \<open>[row]\<close> is the first matching row, if any.\<close>

definition findById :: "db \<Rightarrow> string \<Rightarrow> public_user option" where
  "findById d i = map_option publicUser (find (\<lambda>u. user_id u = i) (users d))"

definition findByEmail :: "db \<Rightarrow> string \<Rightarrow> user option" where
  "findByEmail d em = find (\<lambda>u. user_email u = em) (users d)"

definition emailExists :: "db \<Rightarrow> string \<Rightarrow> bool" where
  "emailExists d em = (find (\<lambda>u. user_email u = em) (users d) \<noteq> None)"

definition usernameExists :: "db \<Rightarrow> string \<Rightarrow> bool" where
  "usernameExists d un = (find (\<lambda>u. user_username u = un) (users d) \<noteq> None)"

text \<open>\<open>[...new Set(xs)]\<close> keeps the first occurrence of every element.\<close>

definition uniq :: "'a list \<Rightarrow> 'a list" where
  "uniq xs = rev (remdups (rev xs))"

definition findByIdWithRoles :: "db \<Rightarrow> string \<Rightarrow> user_with_roles option" where
  "findByIdWithRoles d i =
     (case find (\<lambda>u. user_id u = i) (users d) of
        None \<Rightarrow> None
      | Some u \<Rightarrow>
          let names = [role_name r. ur \<leftarrow> userRoles d, r \<leftarrow> roles d,
                         snd ur = role_id r, fst ur = i];
              permNames =
                (if names = [] then []
                 else
                   let roleIds = [role_id r. r \<leftarrow> roles d, role_name r \<in> set names] in
                   if roleIds = [] then []
                   else
                     uniq [perm_resource p @ '':'' @ perm_action p.
                             rp \<leftarrow> rolePermissions d, p \<leftarrow> permissions d,
                             snd rp = perm_id p, fst rp \<in> set roleIds])
          in Some \<lparr>user_id = user_id u, user_email = user_email u,
                   user_username = user_username u, user_name = user_name u,
                   user_status = user_status u, user_lastLoginAt = user_lastLoginAt u,
                   roleNames = names, permissionNames = permNames\<rparr>)"

definition updateLastLogin :: "db \<Rightarrow> string \<Rightarrow> nat \<Rightarrow> db" where
  "updateLastLogin d i nowMs =
     d\<lparr>users := map (\<lambda>u. if user_id u = i then u\<lparr>user_lastLoginAt := Some nowMs\<rparr> else u)
                    (users d)\<rparr>"

text \<open>
  \<open>create\<close>: the new row has the given id (\<open>crypto.randomUUID()\<close>), the column defaults
  \<open>ACTIVE\<close> and no last login, and \<open>name\<close> falls back to the username when it is absent or
  empty.
\<close>

record register_data =
  reg_email :: string
  reg_username :: string
  reg_password :: string
  reg_name :: "string option"

definition create :: "db \<Rightarrow> string \<Rightarrow> register_data \<Rightarrow> error + public_user \<times> db" where
  "create d newId userData =
     (let u = \<lparr>user_id = newId, user_email = reg_email userData,
                user_username = reg_username userData,
                user_name = orDefault (reg_name userData) (reg_username userData),
                user_status = ACTIVE, user_lastLoginAt = None,
                user_password = reg_password userData\<rparr>
      in case insertUser d u of Inl err \<Rightarrow> Inl err | Inr d' \<Rightarrow> Inr (publicUser u, d'))"

text \<open>\<open>assignRole\<close>: an insert with \<open>onConflictDoNothing\<close>.\<close>

definition assignRole :: "db \<Rightarrow> string \<Rightarrow> string \<Rightarrow> db" where
  "assignRole d uid rid =
     (if (uid, rid) \<in> set (userRoles d) then d
      else d\<lparr>userRoles := userRoles d @ [(uid, rid)]\<rparr>)"

section \<open>The authentication service (\<open>services/auth.service.ts\<close>)\<close>

text \<open>
  Every operation takes the database and returns the outcome together with the database
  it leaves behind, so that a failure after a write shows. What the code draws from its
  environment is an argument: the identifier of \<open>crypto.randomUUID()\<close>, each reading of the
  clock (milliseconds), and the password hasher of \<open>utils/hash.ts\<close> (bcrypt, from the
  runtime).
\<close>

text \<open>
  \<open>RefreshResult\<close> is the pair of tokens; \<open>AuthResult\<close> is that pair together with the
  user.
\<close>

record refresh_result =
  accessToken :: token
  refreshToken :: token

record auth_result = refresh_result +
  user :: user_with_roles

definition storeRefreshToken :: "db \<Rightarrow> string \<Rightarrow> string \<Rightarrow> token \<Rightarrow> nat \<Rightarrow> error + db" where
  "storeRefreshToken d newId uid tok expiresAt =
     insertRefreshToken d
       \<lparr>rt_id = newId, rt_userId = uid, rt_token = tok, rt_expiresAt = expiresAt\<rparr>"

text \<open>
  \<open>register\<close>. \<open>hashPassword\<close> is the hasher with its salt drawn; \<open>newUserId\<close> and
  \<open>newTokenId\<close> are the two identifiers drawn; \<open>tAccess\<close> and \<open>tRefresh\<close> are the clock
  readings of the two token generators.
\<close>

definition register ::
  "(string \<Rightarrow> string) \<Rightarrow> env \<Rightarrow> string \<Rightarrow> string \<Rightarrow> nat \<Rightarrow> nat \<Rightarrow> register_data \<Rightarrow> db
     \<Rightarrow> (error + auth_result) \<times> db" where
  "register hashPassword e newUserId newTokenId tAccess tRefresh userData d =
     (if emailExists d (reg_email userData) then (Inl (Error ''Email already registered''), d)
      else if usernameExists d (reg_username userData) then
        (Inl (Error ''Username already taken''), d)
      else
        let hashedPassword = hashPassword (reg_password userData) in
        (case create d newUserId (userData\<lparr>reg_password := hashedPassword\<rparr>) of
          Inl err \<Rightarrow> (Inl err, d)
        | Inr (u, d1) \<Rightarrow>
            let d2 = (case find (\<lambda>r. role_name r = ''user'') (roles d1) of
                        None \<Rightarrow> d1
                      | Some defaultRole \<Rightarrow> assignRole d1 (user_id u) (role_id defaultRole))
            in
            (case findByIdWithRoles d2 (user_id u) of
              None \<Rightarrow> (Inl (Error ''Failed to create user''), d2)
            | Some userWithRoles \<Rightarrow>
                (case generateAccessToken e (user_id u) (user_email u) tAccess of
                   Inl err \<Rightarrow> (Inl err, d2)
                 | Inr access \<Rightarrow>
                     (case generateRefreshToken e (user_id u) tRefresh of
                        Inl err \<Rightarrow> (Inl err, d2)
                      | Inr (refreshTok, expiresAt) \<Rightarrow>
                          (case storeRefreshToken d2 newTokenId (user_id u) refreshTok
                                  expiresAt of
                             Inl err \<Rightarrow> (Inl err, d2)
                           | Inr d3 \<Rightarrow>
                               (Inr \<lparr>accessToken = access, refreshToken = refreshTok,
                                      user = userWithRoles\<rparr>, d3)))))))"

text \<open>
  \<open>login\<close>. \<open>verifyPassword password hash\<close> is the hasher's check; \<open>tLogin\<close> is the clock
  reading of \<open>updateLastLogin\<close>.
\<close>

definition login ::
  "(string \<Rightarrow> string \<Rightarrow> bool) \<Rightarrow> env \<Rightarrow> string \<Rightarrow> nat \<Rightarrow> nat \<Rightarrow> nat \<Rightarrow> string \<Rightarrow> string \<Rightarrow> db
     \<Rightarrow> (error + auth_result) \<times> db" where
  "login verifyPassword e newTokenId tLogin tAccess tRefresh em password d =
     (case findByEmail d em of
        None \<Rightarrow> (Inl (Error ''Invalid email or password''), d)
      | Some u \<Rightarrow>
          if \<not> verifyPassword password (user_password u) then
            (Inl (Error ''Invalid email or password''), d)
          else if user_status u \<noteq> ACTIVE then
            (Inl (Error ''Account is deactivated or suspended''), d)
          else
            let d1 = updateLastLogin d (user_id u) tLogin in
            (case findByIdWithRoles d1 (user_id u) of
              None \<Rightarrow> (Inl (Error ''User not found''), d1)
            | Some userWithRoles \<Rightarrow>
                (case generateAccessToken e (user_id u) (user_email u) tAccess of
                   Inl err \<Rightarrow> (Inl err, d1)
                 | Inr access \<Rightarrow>
                     (case generateRefreshToken e (user_id u) tRefresh of
                        Inl err \<Rightarrow> (Inl err, d1)
                      | Inr (refreshTok, expiresAt) \<Rightarrow>
                          (case storeRefreshToken d1 newTokenId (user_id u) refreshTok
                                  expiresAt of
                             Inl err \<Rightarrow> (Inl err, d1)
                           | Inr d2 \<Rightarrow>
                               (Inr \<lparr>accessToken = access, refreshToken = refreshTok,
                                      user = userWithRoles\<rparr>, d2))))))"

text \<open>
  The query of \<open>refresh\<close>: the first row with this token string, this owner and a stored
  expiry after the clock reading \<open>nowMs\<close> (\<open>new Date()\<close>).
\<close>

definition selectStoredToken :: "db \<Rightarrow> token \<Rightarrow> string \<Rightarrow> nat \<Rightarrow> refresh_token option" where
  "selectStoredToken d tok uid nowMs =
     find (\<lambda>r. rt_token r = tok \<and> rt_userId r = uid \<and> rt_expiresAt r > nowMs)
       (refreshTokens d)"

definition deleteRefreshTokenById :: "db \<Rightarrow> string \<Rightarrow> db" where
  "deleteRefreshTokenById d i =
     d\<lparr>refreshTokens := filter (\<lambda>r. rt_id r \<noteq> i) (refreshTokens d)\<rparr>"

text \<open>
  \<open>refresh\<close>. The clock is read by \<open>verify\<close> (\<open>tVerify\<close>), by the query (\<open>tQuery\<close>) and by the
  two token generators (\<open>tAccess\<close>, \<open>tRefresh\<close>). The statements run one after the other,
  outside any transaction: the old row is deleted before the new tokens are generated and
  the new row inserted.
\<close>

definition refresh ::
  "env \<Rightarrow> string \<Rightarrow> nat \<Rightarrow> nat \<Rightarrow> nat \<Rightarrow> nat \<Rightarrow> token \<Rightarrow> db \<Rightarrow> (error + refresh_result) \<times> db" where
  "refresh e newTokenId tVerify tQuery tAccess tRefresh tok d =
     (case verifyRefreshToken e tok tVerify of
        Inl err \<Rightarrow> (Inl err, d)
      | Inr payload \<Rightarrow>
          (case selectStoredToken d tok (userId payload) tQuery of
             None \<Rightarrow> (Inl (Error ''Invalid or expired refresh token''), d)
           | Some storedToken \<Rightarrow>
               (case findById d (userId payload) of
                  None \<Rightarrow> (Inl (Error ''User not found''), d)
                | Some userRecord \<Rightarrow>
                    if user_status userRecord \<noteq> ACTIVE then
                      (Inl (Error ''Account is deactivated or suspended''), d)
                    else
                      let d1 = deleteRefreshTokenById d (rt_id storedToken) in
                      (case generateAccessToken e (userId payload) (user_email userRecord)
                             tAccess of
                        Inl err \<Rightarrow> (Inl err, d1)
                      | Inr access \<Rightarrow>
                          (case generateRefreshToken e (userId payload) tRefresh of
                             Inl err \<Rightarrow> (Inl err, d1)
                           | Inr (newTok, expiresAt) \<Rightarrow>
                               (case insertRefreshToken d1
                                       \<lparr>rt_id = newTokenId, rt_userId = userId payload,
                                        rt_token = newTok, rt_expiresAt = expiresAt\<rparr> of
                                  Inl err \<Rightarrow> (Inl err, d1)
                                | Inr d2 \<Rightarrow>
                                    (Inr \<lparr>accessToken = access, refreshToken = newTok\<rparr>,
                                     d2)))))))"

definition logout :: "token \<Rightarrow> db \<Rightarrow> db" where
  "logout tok d = d\<lparr>refreshTokens := filter (\<lambda>r. rt_token r \<noteq> tok) (refreshTokens d)\<rparr>"

definition logoutAll :: "string \<Rightarrow> db \<Rightarrow> db" where
  "logoutAll uid d = d\<lparr>refreshTokens := filter (\<lambda>r. rt_userId r \<noteq> uid) (refreshTokens d)\<rparr>"

text \<open>\<open>cleanupExpiredTokens\<close> returns the number of rows it deleted.\<close>

definition cleanupExpiredTokens :: "nat \<Rightarrow> db \<Rightarrow> nat \<times> db" where
  "cleanupExpiredTokens nowMs d =
     (length (filter (\<lambda>r. rt_expiresAt r < nowMs) (refreshTokens d)),
      d\<lparr>refreshTokens := filter (\<lambda>r. \<not> rt_expiresAt r < nowMs) (refreshTokens d)\<rparr>)"

section \<open>Responses, routes and guards\<close>

text \<open>
  \<open>errorResponse\<close> of the response helpers: the status, the machine-readable code, the
  message and the optional details of the envelope.
\<close>

record error_response =
  status :: nat
  code :: string
  message :: string
  details :: "string option"

definition errorResponse :: "string \<Rightarrow> nat \<Rightarrow> string \<Rightarrow> error_response" where
  "errorResponse msg st cd = \<lparr>status = st, code = cd, message = msg, details = None\<rparr>"

fun errorMessage :: "error \<Rightarrow> string" where
  "errorMessage (Error m) = m"

text \<open>
  The routes of \<open>routes/auth.ts\<close>, for a body that has passed the validator. They read
  \<open>JWT_EXPIRES_IN\<close> from the validated environment of \<open>utils/env\<close>, whose default stands
  for an unset variable only. Whatever the service throws is caught and answered with
  status 401; a success carries the service's result and \<open>expiresIn\<close> in seconds.
\<close>

definition validated_JWT_EXPIRES_IN :: "env \<Rightarrow> string" where
  "validated_JWT_EXPIRES_IN e = (case env_JWT_EXPIRES_IN e of None \<Rightarrow> ''15m'' | Some s \<Rightarrow> s)"

definition loginRoute ::
  "(string \<Rightarrow> string \<Rightarrow> bool) \<Rightarrow> env \<Rightarrow> string \<Rightarrow> nat \<Rightarrow> nat \<Rightarrow> nat \<Rightarrow> string \<Rightarrow> string \<Rightarrow> db
     \<Rightarrow> (error_response + auth_result \<times> nat) \<times> db" where
  "loginRoute verifyPassword e newTokenId tLogin tAccess tRefresh em password d =
     (case login verifyPassword e newTokenId tLogin tAccess tRefresh em password d of
        (Inl err, d') \<Rightarrow> (Inl (errorResponse (errorMessage err) 401 ''LOGIN_FAILED''), d')
      | (Inr res, d') \<Rightarrow>
          (Inr (res, parseExpirationToSeconds (validated_JWT_EXPIRES_IN e)), d'))"


text \<open>
  \<open>requirePermission\<close> of \<open>middleware/auth.ts\<close>. \<open>ctxUser\<close> is \<open>c.get('user')\<close>, the
  payload the authentication middleware attached, if any. The guard either calls \<open>next()\<close>
  or answers with an error response.
\<close>

datatype guard_result = Next | Respond error_response

definition requirePermission :: "string \<Rightarrow> string \<Rightarrow> jwt_payload option \<Rightarrow> db \<Rightarrow> guard_result" where
  "requirePermission resource action ctxUser d =
     (case ctxUser of
        None \<Rightarrow> Respond (errorResponse ''Authentication required'' 401 ''UNAUTHORIZED'')
      | Some u \<Rightarrow>
          (case findByIdWithRoles d (userId u) of
             None \<Rightarrow> Respond (errorResponse ''User not found'' 404 ''USER_NOT_FOUND'')
           | Some userWithRoles \<Rightarrow>
               let requiredPermission = resource @ '':'' @ action;
                   hasPermission =
                     (''*:*'' \<in> set (permissionNames userWithRoles) \<or>
                      (resource @ '':*'') \<in> set (permissionNames userWithRoles) \<or>
                      (''*:'' @ action) \<in> set (permissionNames userWithRoles) \<or>
                      requiredPermission \<in> set (permissionNames userWithRoles))
               in if \<not> hasPermission then
                    Respond ((errorResponse ''Insufficient permissions'' 403 ''FORBIDDEN'')
                               \<lparr>details := Some requiredPermission\<rparr>)
                  else Next))"

section \<open>Scenarios\<close>

text \<open>
  Concrete inputs for the closed theorems below: the development environment (no variable
  set, so the defaults \<open>15m\<close> and \<open>7d\<close> and the development secrets apply), a hasher, one
  or two users, and the runs of the service that the theorems evaluate.
\<close>

definition devEnv :: env where
  "devEnv = \<lparr>env_JWT_SECRET = None, env_JWT_REFRESH_SECRET = None,
             env_JWT_EXPIRES_IN = None, env_JWT_REFRESH_EXPIRES_IN = None\<rparr>"

definition hashOf :: "string \<Rightarrow> string" where
  "hashOf password = ''hash-of-'' @ password"

definition checkPassword :: "string \<Rightarrow> string \<Rightarrow> bool" where
  "checkPassword password hash = (hash = hashOf password)"

definition alice :: user where
  "alice = \<lparr>user_id = ''u1'', user_email = ''alice@example.com'', user_username = ''alice'',
            user_name = ''alice'', user_status = ACTIVE, user_lastLoginAt = None,
            user_password = ''hash-of-password123''\<rparr>"

definition bob :: user where
  "bob = \<lparr>user_id = ''u2'', user_email = ''bob@example.com'', user_username = ''bob'',
          user_name = ''bob'', user_status = ACTIVE, user_lastLoginAt = None,
          user_password = ''hash-of-hunter2hunter2''\<rparr>"

definition aliceDb :: db where
  "aliceDb = \<lparr>users = [alice], refreshTokens = [], roles = [], userRoles = [],
              permissions = [], rolePermissions = []\<rparr>"

text \<open>The refresh token the development environment issues to a user in a given second.\<close>

definition devRefreshToken :: "string \<Rightarrow> nat \<Rightarrow> token" where
  "devRefreshToken uid issuedAt =
     sign \<lparr>userId = uid, email = None, type = ''refresh'', iat = issuedAt,
           exp = issuedAt + 604800\<rparr> ''dev-refresh-secret-minimum-32-characters''"

definition devAccessToken :: "string \<Rightarrow> string \<Rightarrow> nat \<Rightarrow> token" where
  "devAccessToken uid em issuedAt =
     sign \<lparr>userId = uid, email = Some em, type = ''access'', iat = issuedAt,
           exp = issuedAt + 900\<rparr> ''dev-jwt-secret-minimum-32-characters-long''"

text \<open>
  Alice logs in at 1700000000.1 s, redeems her refresh token 0.3 s later, within the same
  second of the clock, and submits the same token once more a minute later.
\<close>

definition aliceLogin :: "(error + auth_result) \<times> db" where
  "aliceLogin =
     login checkPassword devEnv ''rt-1'' 1700000000100 1700000000110 1700000000120
       ''alice@example.com'' ''password123'' aliceDb"

definition firstRefresh :: "(error + refresh_result) \<times> db" where
  "firstRefresh =
     refresh devEnv ''rt-2'' 1700000000400 1700000000410 1700000000420 1700000000430
       (devRefreshToken ''u1'' 1700000000) (snd aliceLogin)"

definition secondRefresh :: "(error + refresh_result) \<times> db" where
  "secondRefresh =
     refresh devEnv ''rt-3'' 1700000060000 1700000060010 1700000060020 1700000060030
       (devRefreshToken ''u1'' 1700000000) (snd firstRefresh)"

text \<open>
  The example of the specification: Alice registers on a database that holds the default
  role, and at once calls refresh with the token she was given.
\<close>

definition freshDb :: db where
  "freshDb = \<lparr>users = [], refreshTokens = [], roles = [\<lparr>role_id = ''r1'', role_name = ''user''\<rparr>],
              userRoles = [], permissions = [], rolePermissions = []\<rparr>"

definition aliceData :: register_data where
  "aliceData = \<lparr>reg_email = ''alice@example.com'', reg_username = ''alice'',
                reg_password = ''password123'', reg_name = None\<rparr>"

definition aliceRegistration :: "(error + auth_result) \<times> db" where
  "aliceRegistration =
     register hashOf devEnv ''u1'' ''rt-1'' 1700000000110 1700000000120 aliceData freshDb"

definition refreshAfterRegistration :: "(error + refresh_result) \<times> db" where
  "refreshAfterRegistration =
     refresh devEnv ''rt-2'' 1700000000400 1700000000410 1700000000420 1700000000430
       (devRefreshToken ''u1'' 1700000000) (snd aliceRegistration)"

text \<open>
  Two sessions, another face of the token that repeats within a second: after the login
  above, Alice logs in on a second device at 1700000050.1 s, and the first device redeems
  its token at 1700000050.7 s, within that same second.
\<close>

definition secondLogin :: "(error + auth_result) \<times> db" where
  "secondLogin =
     login checkPassword devEnv ''rt-2'' 1700000050100 1700000050110 1700000050120
       ''alice@example.com'' ''password123'' (snd aliceLogin)"

definition racingRefresh :: "(error + refresh_result) \<times> db" where
  "racingRefresh =
     refresh devEnv ''rt-3'' 1700000050700 1700000050710 1700000050720 1700000050730
       (devRefreshToken ''u1'' 1700000000) (snd secondLogin)"

text \<open>
  A redeployment with a typing error in \<open>JWT_EXPIRES_IN\<close>: the secrets are the same, so
  the token of the login above still verifies when Alice redeems it a minute later.
\<close>

definition typoEnv :: env where
  "typoEnv = devEnv\<lparr>env_JWT_EXPIRES_IN := Some ''15 min''\<rparr>"

definition refreshAfterTypo :: "(error + refresh_result) \<times> db" where
  "refreshAfterTypo =
     refresh typoEnv ''rt-2'' 1700000060000 1700000060010 1700000060020 1700000060030
       (devRefreshToken ''u1'' 1700000000) (snd aliceLogin)"

text \<open>A store with one session of Alice and one of Bob.\<close>

definition sharedDb :: db where
  "sharedDb =
     \<lparr>users = [alice, bob],
      refreshTokens =
        [\<lparr>rt_id = ''rt-1'', rt_userId = ''u1'', rt_token = devRefreshToken ''u1'' 1700000000,
          rt_expiresAt = 1700604800000\<rparr>,
         \<lparr>rt_id = ''rt-2'', rt_userId = ''u2'', rt_token = devRefreshToken ''u2'' 1700000007,
          rt_expiresAt = 1700604807000\<rparr>],
      roles = [], userRoles = [], permissions = [], rolePermissions = []\<rparr>"

text \<open>Alice as an editor who may do anything to documents.\<close>

definition rbacDb :: db where
  "rbacDb =
     \<lparr>users = [alice], refreshTokens = [],
      roles = [\<lparr>role_id = ''r1'', role_name = ''editor''\<rparr>],
      userRoles = [(''u1'', ''r1'')],
      permissions = [\<lparr>perm_id = ''p1'', perm_action = ''*'', perm_resource = ''documents''\<rparr>],
      rolePermissions = [(''r1'', ''p1'')]\<rparr>"

definition alicePayload :: jwt_payload where
  "alicePayload = \<lparr>userId = ''u1'', email = Some ''alice@example.com'', type = ''access'',
                   iat = 1700000000, exp = 1700000900\<rparr>"

section \<open>Auxiliary facts\<close>

subsection \<open>The duration parsers\<close>

lemma matchDuration_unit:
  "matchDuration s = Some (ds, u) \<Longrightarrow> multipliers u \<noteq> None"
  by (auto simp: matchDuration_def multipliers_def isUnit_def split: list.splits if_splits)

lemma matchDuration_grammar:
  "matchDuration s \<noteq> None \<longleftrightarrow>
     (\<exists>ds u. s = ds @ [u] \<and> ds \<noteq> [] \<and> (\<forall>c \<in> set ds. isDigit c) \<and> isUnit u)"
proof
  assume "matchDuration s \<noteq> None"
  then obtain u rds where r: "rev s = u # rds" "rds \<noteq> []" "list_all isDigit rds" "isUnit u"
    by (auto simp: matchDuration_def split: list.splits if_splits)
  from r(1) have "s = rev rds @ [u]" by (metis rev.simps(2) rev_rev_ident)
  with r show "\<exists>ds u. s = ds @ [u] \<and> ds \<noteq> [] \<and> (\<forall>c \<in> set ds. isDigit c) \<and> isUnit u"
    by (auto simp: list_all_iff)
next
  assume "\<exists>ds u. s = ds @ [u] \<and> ds \<noteq> [] \<and> (\<forall>c \<in> set ds. isDigit c) \<and> isUnit u"
  then show "matchDuration s \<noteq> None"
    by (auto simp: matchDuration_def list_all_iff)
qed

lemma parsers_agree_on_match:
  "parseExpiresIn s = Inr n \<Longrightarrow> parseExpirationToSeconds s = n"
  by (auto simp: parseExpiresIn_def parseExpirationToSeconds_def multipliers_def Let_def
      matchDuration_def isUnit_def split: option.splits list.splits if_splits)

lemma parseExpiresIn_15m: "parseExpiresIn ''15m'' = Inr 900"
  by (simp add: parseExpiresIn_def matchDuration_def isDigit_def isUnit_def parseInt_def
      digitValue_def multipliers_def)

lemma parseExpiresIn_7d: "parseExpiresIn ''7d'' = Inr 604800"
  by (simp add: parseExpiresIn_def matchDuration_def isDigit_def isUnit_def parseInt_def
      digitValue_def multipliers_def)

subsection \<open>The store\<close>

lemma find_filter:
  "find P (filter Q xs) = find (\<lambda>x. Q x \<and> P x) xs"
  by (induction xs) auto

lemma insertRefreshToken_Inr_iff:
  "insertRefreshToken d r = Inr d' \<longleftrightarrow>
     rt_id r \<notin> set (map rt_id (refreshTokens d)) \<and>
     rt_token r \<notin> set (map rt_token (refreshTokens d)) \<and>
     rt_userId r \<in> set (map user_id (users d)) \<and>
     d' = d\<lparr>refreshTokens := refreshTokens d @ [r]\<rparr>"
  by (auto simp: insertRefreshToken_def)



lemma refreshTokens_deleteRefreshTokenById:
  "refreshTokens (deleteRefreshTokenById d i) = filter (\<lambda>r. rt_id r \<noteq> i) (refreshTokens d)"
  by (simp add: deleteRefreshTokenById_def)


lemma selectStoredToken_SomeD:
  "selectStoredToken d tok uid tq = Some r \<Longrightarrow>
     r \<in> set (refreshTokens d) \<and> rt_token r = tok \<and> rt_userId r = uid \<and> tq < rt_expiresAt r"
  by (auto simp: selectStoredToken_def find_Some_iff)

subsection \<open>Token generation\<close>

lemma generateRefreshToken_Inr:
  "generateRefreshToken e uid t0 = Inr (tok, expiresAt) \<Longrightarrow>
     \<exists>n. parseExpiresIn (JWT_REFRESH_EXPIRES_IN e) = Inr n \<and>
         tok = sign \<lparr>userId = uid, email = None, type = ''refresh'', iat = t0 div 1000,
                     exp = t0 div 1000 + n\<rparr> (getRefreshSecret e) \<and>
         expiresAt = (t0 div 1000 + n) * 1000"
  by (auto simp: generateRefreshToken_def Let_def split: sum.splits)


subsection \<open>The outcomes of refresh\<close>

lemma refresh_Inr_iff:
  "refresh e nid tv tq ta tr tok d = (Inr res, d') \<longleftrightarrow>
   (\<exists>p r u a nt ea.
      verifyRefreshToken e tok tv = Inr p \<and>
      selectStoredToken d tok (userId p) tq = Some r \<and>
      findById d (userId p) = Some u \<and> user_status u = ACTIVE \<and>
      generateAccessToken e (userId p) (user_email u) ta = Inr a \<and>
      generateRefreshToken e (userId p) tr = Inr (nt, ea) \<and>
      insertRefreshToken (deleteRefreshTokenById d (rt_id r))
        \<lparr>rt_id = nid, rt_userId = userId p, rt_token = nt, rt_expiresAt = ea\<rparr> = Inr d' \<and>
      res = \<lparr>accessToken = a, refreshToken = nt\<rparr>)"
  by (auto simp: refresh_def Let_def split: sum.splits option.splits prod.splits)

lemma refresh_Inl_cases:
  assumes "refresh e nid tv tq ta tr tok d = (Inl err, d')"
  shows "d' = d \<or>
         (\<exists>p r u. verifyRefreshToken e tok tv = Inr p \<and>
            selectStoredToken d tok (userId p) tq = Some r \<and>
            findById d (userId p) = Some u \<and> user_status u = ACTIVE \<and>
            d' = deleteRefreshTokenById d (rt_id r))"
  using assms
  by (auto simp: refresh_def Let_def split: sum.splits option.splits prod.splits if_splits)

lemma refresh_check_fails:
  assumes "verifyRefreshToken e tok tv = Inl err0 \<or>
           (\<exists>p. verifyRefreshToken e tok tv = Inr p \<and>
              (selectStoredToken d tok (userId p) tq = None \<or>
               findById d (userId p) = None \<or>
               (\<exists>u. findById d (userId p) = Some u \<and> user_status u \<noteq> ACTIVE)))"
  shows "\<exists>err. refresh e nid tv tq ta tr tok d = (Inl err, d)"
  using assms
  by (auto simp: refresh_def Let_def split: sum.splits option.splits prod.splits if_splits)

subsection \<open>Evaluation of the scenarios\<close>

lemma devEnv_simps:
  "JWT_EXPIRES_IN devEnv = ''15m''" "JWT_REFRESH_EXPIRES_IN devEnv = ''7d''"
  "getJwtSecret devEnv = ''dev-jwt-secret-minimum-32-characters-long''"
  "getRefreshSecret devEnv = ''dev-refresh-secret-minimum-32-characters''"
  by (simp_all add: devEnv_def JWT_EXPIRES_IN_def JWT_REFRESH_EXPIRES_IN_def getJwtSecret_def
      getRefreshSecret_def orDefault_def)

lemma generateRefreshToken_devEnv:
  "generateRefreshToken devEnv uid t =
     Inr (devRefreshToken uid (t div 1000), (t div 1000 + 604800) * 1000)"
  by (simp add: generateRefreshToken_def devEnv_simps parseExpiresIn_7d devRefreshToken_def
      Let_def)

lemma generateAccessToken_devEnv:
  "generateAccessToken devEnv uid em t = Inr (devAccessToken uid em (t div 1000))"
  by (simp add: generateAccessToken_def devEnv_simps parseExpiresIn_15m devAccessToken_def
      Let_def)

lemma verifyRefreshToken_devEnv:
  "verifyRefreshToken devEnv (devRefreshToken uid s) t =
     (if s + 604800 \<le> t div 1000 \<or> s \<noteq> 0 \<and> t div 1000 < s
      then Inl (Error ''Invalid or expired refresh token'')
      else Inr \<lparr>userId = uid, email = None, type = ''refresh'', iat = s, exp = s + 604800\<rparr>)"
  by (simp add: verifyRefreshToken_def verify_def devRefreshToken_def sign_def devEnv_simps
      Let_def)

lemma devRefreshToken_eq_iff:
  "devRefreshToken uid s = devRefreshToken uid' s' \<longleftrightarrow> uid = uid' \<and> s = s'"
  by (auto simp: devRefreshToken_def sign_def)

lemma aliceLogin_eval:
  "aliceLogin =
     (Inr \<lparr>accessToken = devAccessToken ''u1'' ''alice@example.com'' 1700000000,
            refreshToken = devRefreshToken ''u1'' 1700000000,
            user = \<lparr>user_id = ''u1'', user_email = ''alice@example.com'',
                    user_username = ''alice'', user_name = ''alice'', user_status = ACTIVE,
                    user_lastLoginAt = Some 1700000000100, roleNames = [],
                    permissionNames = []\<rparr>\<rparr>,
      aliceDb\<lparr>users := [alice\<lparr>user_lastLoginAt := Some 1700000000100\<rparr>],
              refreshTokens := [\<lparr>rt_id = ''rt-1'', rt_userId = ''u1'',
                                 rt_token = devRefreshToken ''u1'' 1700000000,
                                 rt_expiresAt = 1700604800000\<rparr>]\<rparr>)"
  by (simp add: aliceLogin_def login_def findByEmail_def aliceDb_def alice_def checkPassword_def
      hashOf_def updateLastLogin_def findByIdWithRoles_def generateAccessToken_devEnv
      generateRefreshToken_devEnv storeRefreshToken_def insertRefreshToken_def Let_def)

lemma firstRefresh_eval:
  "firstRefresh =
     (Inr \<lparr>accessToken = devAccessToken ''u1'' ''alice@example.com'' 1700000000,
            refreshToken = devRefreshToken ''u1'' 1700000000\<rparr>,
      aliceDb\<lparr>users := [alice\<lparr>user_lastLoginAt := Some 1700000000100\<rparr>],
              refreshTokens := [\<lparr>rt_id = ''rt-2'', rt_userId = ''u1'',
                                 rt_token = devRefreshToken ''u1'' 1700000000,
                                 rt_expiresAt = 1700604800000\<rparr>]\<rparr>)"
  by (simp add: firstRefresh_def aliceLogin_eval refresh_def verifyRefreshToken_devEnv
      selectStoredToken_def findById_def publicUser_def aliceDb_def alice_def
      deleteRefreshTokenById_def generateAccessToken_devEnv
      generateRefreshToken_devEnv insertRefreshToken_def Let_def)

lemma secondRefresh_eval:
  "secondRefresh =
     (Inr \<lparr>accessToken = devAccessToken ''u1'' ''alice@example.com'' 1700000060,
            refreshToken = devRefreshToken ''u1'' 1700000060\<rparr>,
      aliceDb\<lparr>users := [alice\<lparr>user_lastLoginAt := Some 1700000000100\<rparr>],
              refreshTokens := [\<lparr>rt_id = ''rt-3'', rt_userId = ''u1'',
                                 rt_token = devRefreshToken ''u1'' 1700000060,
                                 rt_expiresAt = 1700604860000\<rparr>]\<rparr>)"
  by (simp add: secondRefresh_def firstRefresh_eval refresh_def verifyRefreshToken_devEnv
      selectStoredToken_def findById_def publicUser_def aliceDb_def alice_def
      deleteRefreshTokenById_def generateAccessToken_devEnv
      generateRefreshToken_devEnv insertRefreshToken_def Let_def devRefreshToken_eq_iff)

lemma aliceRegistration_eval:
  "aliceRegistration =
     (Inr \<lparr>accessToken = devAccessToken ''u1'' ''alice@example.com'' 1700000000,
            refreshToken = devRefreshToken ''u1'' 1700000000,
            user = \<lparr>user_id = ''u1'', user_email = ''alice@example.com'',
                    user_username = ''alice'', user_name = ''alice'', user_status = ACTIVE,
                    user_lastLoginAt = None, roleNames = [''user''],
                    permissionNames = []\<rparr>\<rparr>,
      freshDb\<lparr>users := [alice], userRoles := [(''u1'', ''r1'')],
              refreshTokens := [\<lparr>rt_id = ''rt-1'', rt_userId = ''u1'',
                                 rt_token = devRefreshToken ''u1'' 1700000000,
                                 rt_expiresAt = 1700604800000\<rparr>]\<rparr>)"
  by (simp add: aliceRegistration_def register_def emailExists_def usernameExists_def
      freshDb_def aliceData_def hashOf_def create_def insertUser_def orDefault_def
      publicUser_def assignRole_def alice_def findByIdWithRoles_def uniq_def
      generateAccessToken_devEnv generateRefreshToken_devEnv storeRefreshToken_def
      insertRefreshToken_def Let_def)

lemma refreshAfterRegistration_eval:
  "refreshAfterRegistration =
     (Inr \<lparr>accessToken = devAccessToken ''u1'' ''alice@example.com'' 1700000000,
            refreshToken = devRefreshToken ''u1'' 1700000000\<rparr>,
      freshDb\<lparr>users := [alice], userRoles := [(''u1'', ''r1'')],
              refreshTokens := [\<lparr>rt_id = ''rt-2'', rt_userId = ''u1'',
                                 rt_token = devRefreshToken ''u1'' 1700000000,
                                 rt_expiresAt = 1700604800000\<rparr>]\<rparr>)"
  by (simp add: refreshAfterRegistration_def aliceRegistration_eval refresh_def
      verifyRefreshToken_devEnv selectStoredToken_def findById_def publicUser_def freshDb_def
      alice_def deleteRefreshTokenById_def generateAccessToken_devEnv
      generateRefreshToken_devEnv insertRefreshToken_def Let_def)

lemma secondLogin_eval:
  "secondLogin =
     (Inr \<lparr>accessToken = devAccessToken ''u1'' ''alice@example.com'' 1700000050,
            refreshToken = devRefreshToken ''u1'' 1700000050,
            user = \<lparr>user_id = ''u1'', user_email = ''alice@example.com'',
                    user_username = ''alice'', user_name = ''alice'', user_status = ACTIVE,
                    user_lastLoginAt = Some 1700000050100, roleNames = [],
                    permissionNames = []\<rparr>\<rparr>,
      aliceDb\<lparr>users := [alice\<lparr>user_lastLoginAt := Some 1700000050100\<rparr>],
              refreshTokens := [\<lparr>rt_id = ''rt-1'', rt_userId = ''u1'',
                                 rt_token = devRefreshToken ''u1'' 1700000000,
                                 rt_expiresAt = 1700604800000\<rparr>,
                                \<lparr>rt_id = ''rt-2'', rt_userId = ''u1'',
                                 rt_token = devRefreshToken ''u1'' 1700000050,
                                 rt_expiresAt = 1700604850000\<rparr>]\<rparr>)"
  by (simp add: secondLogin_def aliceLogin_eval login_def findByEmail_def aliceDb_def alice_def
      checkPassword_def hashOf_def updateLastLogin_def findByIdWithRoles_def
      generateAccessToken_devEnv generateRefreshToken_devEnv storeRefreshToken_def
      insertRefreshToken_def Let_def devRefreshToken_eq_iff)

lemma racingRefresh_eval:
  "racingRefresh =
     (Inl (uniqueViolation ''refresh_tokens_token_unique''),
      aliceDb\<lparr>users := [alice\<lparr>user_lastLoginAt := Some 1700000050100\<rparr>],
              refreshTokens := [\<lparr>rt_id = ''rt-2'', rt_userId = ''u1'',
                                 rt_token = devRefreshToken ''u1'' 1700000050,
                                 rt_expiresAt = 1700604850000\<rparr>]\<rparr>)"
  by (simp add: racingRefresh_def secondLogin_eval refresh_def verifyRefreshToken_devEnv
      selectStoredToken_def findById_def publicUser_def aliceDb_def alice_def
      deleteRefreshTokenById_def generateAccessToken_devEnv
      generateRefreshToken_devEnv insertRefreshToken_def Let_def devRefreshToken_eq_iff)

text \<open>
  Not only a collision of token strings makes refresh fail after its checks: with the
  unparseable duration the access token cannot be generated, and the redeemed row is gone.
\<close>

lemma refreshAfterTypo_eval:
  "refreshAfterTypo =
     (Inl (Error ''Invalid expires format. Use format: 1s, 1m, 1h, 1d''),
      aliceDb\<lparr>users := [alice\<lparr>user_lastLoginAt := Some 1700000000100\<rparr>],
              refreshTokens := []\<rparr>)"
proof -
  have p: "parseExpiresIn ''15 min'' =
             Inl (Error ''Invalid expires format. Use format: 1s, 1m, 1h, 1d'')"
    by (simp add: parseExpiresIn_def matchDuration_def isUnit_def isDigit_def)
  have v: "verifyRefreshToken typoEnv (devRefreshToken ''u1'' 1700000000) 1700000060000 =
             Inr \<lparr>userId = ''u1'', email = None, type = ''refresh'', iat = 1700000000,
                  exp = 1700604800\<rparr>"
    by (simp add: verifyRefreshToken_def verify_def devRefreshToken_def sign_def typoEnv_def
        devEnv_def getRefreshSecret_def orDefault_def)
  have g: "generateAccessToken typoEnv uid em t =
             Inl (Error ''Invalid expires format. Use format: 1s, 1m, 1h, 1d'')" for uid em t
    by (simp add: generateAccessToken_def typoEnv_def devEnv_def JWT_EXPIRES_IN_def
        orDefault_def p)
  show ?thesis
    by (simp add: refreshAfterTypo_def aliceLogin_eval refresh_def v g selectStoredToken_def
        findById_def publicUser_def aliceDb_def alice_def deleteRefreshTokenById_def)
qed

lemma parseExpiresIn_typo:
  "parseExpiresIn (JWT_EXPIRES_IN typoEnv) =
     Inl (Error ''Invalid expires format. Use format: 1s, 1m, 1h, 1d'')"
  by (simp add: typoEnv_def devEnv_def JWT_EXPIRES_IN_def orDefault_def parseExpiresIn_def
      matchDuration_def isUnit_def isDigit_def)

lemma verifyRefreshToken_typoEnv:
  "verifyRefreshToken typoEnv (devRefreshToken ''u1'' 1700000000) 1700000060000 =
     Inr \<lparr>userId = ''u1'', email = None, type = ''refresh'', iat = 1700000000,
          exp = 1700604800\<rparr>"
  by (simp add: verifyRefreshToken_def verify_def devRefreshToken_def sign_def typoEnv_def
      devEnv_def getRefreshSecret_def orDefault_def)

lemma aliceLogin_select:
  "selectStoredToken (snd aliceLogin) (devRefreshToken ''u1'' 1700000000) ''u1'' 1700000060010 =
     Some \<lparr>rt_id = ''rt-1'', rt_userId = ''u1'', rt_token = devRefreshToken ''u1'' 1700000000,
           rt_expiresAt = 1700604800000\<rparr>"
  by (simp add: aliceLogin_eval selectStoredToken_def)

lemma aliceLogin_findById:
  "findById (snd aliceLogin) ''u1'' =
     Some \<lparr>user_id = ''u1'', user_email = ''alice@example.com'', user_username = ''alice'',
           user_name = ''alice'', user_status = ACTIVE,
           user_lastLoginAt = Some 1700000000100\<rparr>"
  by (simp add: aliceLogin_eval findById_def publicUser_def aliceDb_def alice_def)

subsection \<open>Generation and parsing\<close>

lemma parseExpiresIn_Inl:
  "parseExpiresIn s = Inl err \<Longrightarrow>
     err = Error ''Invalid expires format. Use format: 1s, 1m, 1h, 1d''"
  by (auto simp: parseExpiresIn_def split: option.splits)

lemma generateAccessToken_parsed:
  "parseExpiresIn (JWT_EXPIRES_IN e) = Inr n \<Longrightarrow>
     generateAccessToken e uid em t =
       Inr (sign \<lparr>userId = uid, email = Some em, type = ''access'', iat = t div 1000,
                  exp = t div 1000 + n\<rparr> (getJwtSecret e))"
  by (simp add: generateAccessToken_def Let_def)


lemma generateAccessToken_unparsed:
  "parseExpiresIn (JWT_EXPIRES_IN e) = Inl err \<Longrightarrow> generateAccessToken e uid em t = Inl err"
  by (simp add: generateAccessToken_def)

lemma generateRefreshToken_unparsed:
  "parseExpiresIn (JWT_REFRESH_EXPIRES_IN e) = Inl err \<Longrightarrow>
     generateRefreshToken e uid t = Inl err"
  by (simp add: generateRefreshToken_def)

lemma deleteRefreshTokenById_changes:
  assumes "r \<in> set (refreshTokens d)"
  shows "deleteRefreshTokenById d (rt_id r) \<noteq> d"
proof
  assume "deleteRefreshTokenById d (rt_id r) = d"
  then have "refreshTokens (deleteRefreshTokenById d (rt_id r)) = refreshTokens d"
    by simp
  then have "set (filter (\<lambda>x. rt_id x \<noteq> rt_id r) (refreshTokens d)) = set (refreshTokens d)"
    by (simp add: refreshTokens_deleteRefreshTokenById)
  with assms show False
    by auto
qed

lemma refresh_late_failure:
  assumes "verifyRefreshToken e tok tv = Inr p"
    and "selectStoredToken d tok (userId p) tq = Some r"
    and "findById d (userId p) = Some u" and "user_status u = ACTIVE"
    and "refresh e nid tv tq ta tr tok d = (Inl err, d')"
  shows "d' = deleteRefreshTokenById d (rt_id r)"
  using assms
  by (auto simp: refresh_def Let_def split: sum.splits prod.splits)

subsection \<open>What a successful operation has stored\<close>

lemma stored_after_insert:
  assumes "generateRefreshToken e uid t = Inr (tok, ea)"
    and "insertRefreshToken d0
           \<lparr>rt_id = nid, rt_userId = uid, rt_token = tok, rt_expiresAt = ea\<rparr> = Inr d'"
  shows "\<exists>p r. tok = sign p (getRefreshSecret e) \<and> r \<in> set (refreshTokens d') \<and>
           rt_token r = tok \<and> rt_userId r = uid \<and> rt_expiresAt r = exp p * 1000"
proof -
  from assms(1) obtain n where
    tok: "tok = sign \<lparr>userId = uid, email = None, type = ''refresh'', iat = t div 1000,
                     exp = t div 1000 + n\<rparr> (getRefreshSecret e)" and
    ea: "ea = (t div 1000 + n) * 1000"
    using generateRefreshToken_Inr by blast
  from assms(2) have
    "\<lparr>rt_id = nid, rt_userId = uid, rt_token = tok, rt_expiresAt = ea\<rparr> \<in> set (refreshTokens d')"
    by (simp add: insertRefreshToken_Inr_iff)
  with tok ea show ?thesis
    by (intro exI [of _ "\<lparr>userId = uid, email = None, type = ''refresh'', iat = t div 1000,
          exp = t div 1000 + n\<rparr>"]
        exI [of _ "\<lparr>rt_id = nid, rt_userId = uid, rt_token = tok, rt_expiresAt = ea\<rparr>"]) simp
qed

lemma login_Inr_stored:
  assumes "login vp e nid tlog ta tr em pw d = (Inr res, d')"
  shows "\<exists>uid ea d1. generateRefreshToken e uid tr = Inr (refreshToken res, ea) \<and>
           insertRefreshToken d1 \<lparr>rt_id = nid, rt_userId = uid, rt_token = refreshToken res,
                                   rt_expiresAt = ea\<rparr> = Inr d'"
  using assms
  by (auto simp: login_def storeRefreshToken_def Let_def
      split: option.splits if_splits sum.splits prod.splits) blast+

lemma register_Inr_stored:
  assumes "register hp e nuid nid ta tr userData d = (Inr res, d')"
  shows "\<exists>uid ea d1. generateRefreshToken e uid tr = Inr (refreshToken res, ea) \<and>
           insertRefreshToken d1 \<lparr>rt_id = nid, rt_userId = uid, rt_token = refreshToken res,
                                   rt_expiresAt = ea\<rparr> = Inr d'"
  using assms
  by (auto simp: register_def storeRefreshToken_def Let_def
      split: option.splits if_splits sum.splits prod.splits) blast+

lemma refresh_Inr_stored:
  assumes "refresh e nid tv tq ta tr tok d = (Inr res, d')"
  shows "\<exists>uid ea d1. generateRefreshToken e uid tr = Inr (refreshToken res, ea) \<and>
           insertRefreshToken d1 \<lparr>rt_id = nid, rt_userId = uid, rt_token = refreshToken res,
                                   rt_expiresAt = ea\<rparr> = Inr d'"
  using assms unfolding refresh_Inr_iff by auto blast

subsection \<open>Unique token strings, and rotation across seconds\<close>

text \<open>
  The column \<open>token\<close> is unique. Every operation of the service keeps it so, and under it
  the rotation does what it is meant to do whenever the refresh is not generated in the
  second the submitted token was issued in: the token returned differs from the one
  submitted, and the submitted one is refused from then on.
\<close>

lemma insertRefreshToken_distinct:
  "insertRefreshToken d r = Inr d' \<Longrightarrow> distinct (map rt_token (refreshTokens d)) \<Longrightarrow>
     distinct (map rt_token (refreshTokens d'))"
  by (auto simp: insertRefreshToken_Inr_iff)

lemma deleteRefreshTokenById_distinct:
  "distinct (map rt_token (refreshTokens d)) \<Longrightarrow>
     distinct (map rt_token (refreshTokens (deleteRefreshTokenById d i)))"
  by (simp add: refreshTokens_deleteRefreshTokenById distinct_map_filter)

lemma refresh_distinct:
  assumes "refresh e nid tv tq ta tr tok d = (res, d')"
    and "distinct (map rt_token (refreshTokens d))"
  shows "distinct (map rt_token (refreshTokens d'))"
proof (cases res)
  case (Inl err)
  with assms(1) refresh_Inl_cases [of e nid tv tq ta tr tok d err d']
  have "d' = d \<or> (\<exists>i. d' = deleteRefreshTokenById d i)"
    by blast
  with assms(2) show ?thesis
    by (auto simp: deleteRefreshTokenById_distinct)
next
  case (Inr r)
  with assms(1) have "refresh e nid tv tq ta tr tok d = (Inr r, d')"
    by simp
  then obtain i row where
    "insertRefreshToken (deleteRefreshTokenById d i) row = Inr d'"
    unfolding refresh_Inr_iff by blast
  with assms(2) show ?thesis
    by (blast intro: insertRefreshToken_distinct deleteRefreshTokenById_distinct)
qed

lemma login_distinct:
  assumes "login vp e nid tlog ta tr em pw d = (res, d')"
    and "distinct (map rt_token (refreshTokens d))"
  shows "distinct (map rt_token (refreshTokens d'))"
  using assms
  by (auto simp: login_def storeRefreshToken_def updateLastLogin_def Let_def
      insertRefreshToken_Inr_iff
      split: option.splits if_splits sum.splits prod.splits)

lemma logoutAll_distinct:
  "distinct (map rt_token (refreshTokens d)) \<Longrightarrow>
     distinct (map rt_token (refreshTokens (logoutAll uid d)))"
  by (simp add: logoutAll_def distinct_map_filter)

lemma logout_distinct:
  "distinct (map rt_token (refreshTokens d)) \<Longrightarrow>
     distinct (map rt_token (refreshTokens (logout tok d)))"
  by (simp add: logout_def distinct_map_filter)

lemma verifyRefreshToken_Inr:
  "verifyRefreshToken e tok tv = Inr p \<Longrightarrow>
     tok = sign p (getRefreshSecret e) \<and> type p = ''refresh''"
  by (auto simp: verifyRefreshToken_def verify_def sign_def Let_def
      split: token.splits option.splits if_splits)

lemma refresh_rotates_in_later_second:
  assumes "refresh e nid tv tq ta tr tok d = (Inr res, d')"
    and "verifyRefreshToken e tok tv = Inr p" and "tr div 1000 \<noteq> iat p"
  shows "refreshToken res \<noteq> tok"
proof
  assume same: "refreshToken res = tok"
  from assms(1) obtain uid ea where "generateRefreshToken e uid tr = Inr (refreshToken res, ea)"
    using refresh_Inr_stored by blast
  then obtain n where
    "refreshToken res = sign \<lparr>userId = uid, email = None, type = ''refresh'',
        iat = tr div 1000, exp = tr div 1000 + n\<rparr> (getRefreshSecret e)"
    using generateRefreshToken_Inr by blast
  with same verifyRefreshToken_Inr [OF assms(2)] have "iat p = tr div 1000"
    by (auto simp: sign_def)
  with assms(3) show False by simp
qed

lemma redeemed_token_refused:
  assumes ok: "refresh e nid tv tq ta tr tok d = (Inr res, d')"
    and dist: "distinct (map rt_token (refreshTokens d))"
    and new: "refreshToken res \<noteq> tok"
  shows "refresh e nid' tv' tq' ta' tr' tok d' =
           (Inl (Error ''Invalid or expired refresh token''), d')"
proof -
  from ok obtain p r nt ea a where
    "verifyRefreshToken e tok tv = Inr p" and
    s: "selectStoredToken d tok (userId p) tq = Some r" and
    i: "insertRefreshToken (deleteRefreshTokenById d (rt_id r))
          \<lparr>rt_id = nid, rt_userId = userId p, rt_token = nt, rt_expiresAt = ea\<rparr> = Inr d'" and
    res': "res = \<lparr>accessToken = a, refreshToken = nt\<rparr>"
    unfolding refresh_Inr_iff by blast
  from res' have res: "refreshToken res = nt"
    by simp
  from selectStoredToken_SomeD [OF s] have r: "r \<in> set (refreshTokens d)" "rt_token r = tok"
    by simp_all
  have gone: "rt_token x \<noteq> tok" if "x \<in> set (refreshTokens d')" for x
  proof
    assume t: "rt_token x = tok"
    from i that have
      "x = \<lparr>rt_id = nid, rt_userId = userId p, rt_token = nt, rt_expiresAt = ea\<rparr> \<or>
       (x \<in> set (refreshTokens d) \<and> rt_id x \<noteq> rt_id r)"
      by (auto simp: insertRefreshToken_Inr_iff refreshTokens_deleteRefreshTokenById)
    then show False
    proof
      assume "x = \<lparr>rt_id = nid, rt_userId = userId p, rt_token = nt, rt_expiresAt = ea\<rparr>"
      with t res new show False by simp
    next
      assume x: "x \<in> set (refreshTokens d) \<and> rt_id x \<noteq> rt_id r"
      from dist have "inj_on rt_token (set (refreshTokens d))"
        by (simp add: distinct_map)
      with x r t have "x = r"
        by (auto dest: inj_onD)
      with x show False by simp
    qed
  qed
  then have "selectStoredToken d' tok uid' tq' = None" for uid'
    by (auto simp: selectStoredToken_def find_None_iff)
  then show ?thesis
    by (auto simp: refresh_def verifyRefreshToken_def split: sum.splits option.splits)
qed

subsection \<open>Logout and the sweep\<close>

lemma logout_idempotent:
  "logout tok (logout tok d) = logout tok d"
  by (simp add: logout_def)

lemma logout_absent:
  "tok \<notin> set (map rt_token (refreshTokens d)) \<Longrightarrow> logout tok d = d"
proof -
  assume "tok \<notin> set (map rt_token (refreshTokens d))"
  then have "filter (\<lambda>r. rt_token r \<noteq> tok) (refreshTokens d) = refreshTokens d"
    by (auto simp: filter_id_conv)
  then show ?thesis
    by (simp add: logout_def)
qed

text \<open>The sweep changes no answer of the query of refresh at the time of the sweep or later.\<close>

lemma cleanupExpiredTokens_select:
  assumes "nowMs \<le> tq"
  shows "selectStoredToken (snd (cleanupExpiredTokens nowMs d)) tok uid tq =
           selectStoredToken d tok uid tq"
  using assms
  by (auto simp: cleanupExpiredTokens_def selectStoredToken_def find_filter intro!: find_cong)

section \<open>The claims\<close>

subsection \<open>C1: a redeemed refresh token\<close>

text \<open>
  C1 says that a refresh token redeemed once is refused the second time, the row of the
  token being gone. The code deletes the row, then signs the new token from the user id and
  the current second alone, and stores it: redeemed in the second of its issue, the token
  is issued anew, character for character, and its row is back in the store. In the
  scenario Alice's token of 1700000000 is returned by the first refresh, the store lookup
  of the second call finds the row \<open>rt-2\<close> holding it, and the second refresh, a minute
  later, succeeds.
\<close>

theorem C1_redeemed_token_accepted_again:
  "map_sum id refreshToken (fst aliceLogin) = Inr (devRefreshToken ''u1'' 1700000000) \<and>
   map_sum id refreshToken (fst firstRefresh) = Inr (devRefreshToken ''u1'' 1700000000) \<and>
   selectStoredToken (snd firstRefresh) (devRefreshToken ''u1'' 1700000000) ''u1'' 1700000060010 =
     Some \<lparr>rt_id = ''rt-2'', rt_userId = ''u1'', rt_token = devRefreshToken ''u1'' 1700000000,
           rt_expiresAt = 1700604800000\<rparr> \<and>
   map_sum id refreshToken (fst secondRefresh) = Inr (devRefreshToken ''u1'' 1700000060)"
  by (simp add: aliceLogin_eval firstRefresh_eval secondRefresh_eval selectStoredToken_def)

subsection \<open>C2: when refresh succeeds\<close>




subsection \<open>C3: issuing and verifying\<close>

text \<open>
  C3: an access token issued for a user id and an email, verified as an access token no
  earlier than its issue and before the second of its expiry, gives back that user id and
  that email. A token issued as a refresh token is rejected by \<open>verifyAccessToken\<close>, and a
  token issued as an access token is rejected by \<open>verifyRefreshToken\<close>, at every time and
  whatever the two secrets are.
\<close>

theorem C3_issue_verify_round_trip:
  "(generateAccessToken e uid em ti = Inr tok \<and>
    parseExpiresIn (JWT_EXPIRES_IN e) = Inr n \<and> ti \<le> tv \<and> tv div 1000 < ti div 1000 + n \<longrightarrow>
      (\<exists>p. verifyAccessToken e tok tv = Inr p \<and> userId p = uid \<and> email p = Some em)) \<and>
   (generateRefreshToken e uid ti = Inr (rtok, expiresAt) \<longrightarrow>
      verifyAccessToken e rtok tv = Inl (Error ''Invalid or expired access token'')) \<and>
   (generateAccessToken e uid em ti = Inr tok \<longrightarrow>
      verifyRefreshToken e tok tv = Inl (Error ''Invalid or expired refresh token''))"
proof (intro conjI impI)
  assume a: "generateAccessToken e uid em ti = Inr tok \<and>
    parseExpiresIn (JWT_EXPIRES_IN e) = Inr n \<and> ti \<le> tv \<and> tv div 1000 < ti div 1000 + n"
  then have le: "ti div 1000 \<le> tv div 1000"
    by (simp add: div_le_mono)
  from a le show "\<exists>p. verifyAccessToken e tok tv = Inr p \<and> userId p = uid \<and> email p = Some em"
    by (auto simp: generateAccessToken_def verifyAccessToken_def verify_def sign_def Let_def)
next
  assume "generateRefreshToken e uid ti = Inr (rtok, expiresAt)"
  then show "verifyAccessToken e rtok tv = Inl (Error ''Invalid or expired access token'')"
    by (auto simp: generateRefreshToken_def verifyAccessToken_def verify_def sign_def Let_def
        split: sum.splits)
next
  assume "generateAccessToken e uid em ti = Inr tok"
  then show "verifyRefreshToken e tok tv = Inl (Error ''Invalid or expired refresh token'')"
    by (auto simp: generateAccessToken_def verifyRefreshToken_def verify_def sign_def Let_def
        split: sum.splits)
qed

theorem C3_issue_verify_round_trip_witness:
  "generateAccessToken devEnv ''u1'' ''alice@example.com'' 1700000000110 =
     Inr (devAccessToken ''u1'' ''alice@example.com'' 1700000000) \<and>
   generateRefreshToken devEnv ''u1'' 1700000000110 =
     Inr (devRefreshToken ''u1'' 1700000000, 1700604800000) \<and>
   (\<exists>p. verifyAccessToken devEnv (devAccessToken ''u1'' ''alice@example.com'' 1700000000)
           1700000000500 = Inr p \<and>
        userId p = ''u1'' \<and> email p = Some ''alice@example.com'') \<and>
   verifyAccessToken devEnv (devRefreshToken ''u1'' 1700000000) 1700000000500 =
     Inl (Error ''Invalid or expired access token'') \<and>
   verifyRefreshToken devEnv (devAccessToken ''u1'' ''alice@example.com'' 1700000000)
     1700000000500 = Inl (Error ''Invalid or expired refresh token'')"
proof -
  have g: "generateAccessToken devEnv ''u1'' ''alice@example.com'' 1700000000110 =
             Inr (devAccessToken ''u1'' ''alice@example.com'' 1700000000)"
    by (simp add: generateAccessToken_devEnv)
  have r: "generateRefreshToken devEnv ''u1'' 1700000000110 =
             Inr (devRefreshToken ''u1'' 1700000000, 1700604800000)"
    by (simp add: generateRefreshToken_devEnv)
  have n: "parseExpiresIn (JWT_EXPIRES_IN devEnv) = Inr 900"
    by (simp add: devEnv_simps parseExpiresIn_15m)
  have t: "(1700000000110::nat) \<le> 1700000000500 \<and>
           (1700000000500::nat) div 1000 < 1700000000110 div 1000 + 900"
    by simp
  note th = C3_issue_verify_round_trip [where e = devEnv and uid = "''u1''"
      and em = "''alice@example.com''" and ti = 1700000000110 and tv = 1700000000500
      and tok = "devAccessToken ''u1'' ''alice@example.com'' 1700000000" and n = 900
      and rtok = "devRefreshToken ''u1'' 1700000000" and expiresAt = 1700604800000]
  from th g r n t show ?thesis by blast
qed

subsection \<open>C4: the two failures of login\<close>

text \<open>
  C4: a login with an email no user has, and a login with the email of a user and a password
  that does not match the stored hash, fail with the same error, "Invalid email or
  password", leave the database as it was, and are answered by the route with the same
  response: status 401, code \<open>LOGIN_FAILED\<close> and that message.
\<close>

theorem C4_login_failures_indistinguishable:
  assumes "findByEmail d emA = None"
    and "findByEmail d emB = Some u" and "\<not> vp pwB (user_password u)"
  shows "login vp e nidA tlA taA trA emA pwA d = (Inl (Error ''Invalid email or password''), d) \<and>
         login vp e nidB tlB taB trB emB pwB d = (Inl (Error ''Invalid email or password''), d) \<and>
         loginRoute vp e nidA tlA taA trA emA pwA d =
           (Inl (errorResponse ''Invalid email or password'' 401 ''LOGIN_FAILED''), d) \<and>
         loginRoute vp e nidB tlB taB trB emB pwB d =
           (Inl (errorResponse ''Invalid email or password'' 401 ''LOGIN_FAILED''), d)"
  using assms by (simp add: login_def loginRoute_def)

theorem C4_login_failures_indistinguishable_witness:
  "findByEmail aliceDb ''nobody@example.com'' = None \<and>
   findByEmail aliceDb ''alice@example.com'' = Some alice \<and>
   \<not> checkPassword ''not-the-password'' (user_password alice) \<and>
   loginRoute checkPassword devEnv ''rt-1'' 1700000000100 1700000000110 1700000000120
     ''nobody@example.com'' ''password123'' aliceDb =
     (Inl (errorResponse ''Invalid email or password'' 401 ''LOGIN_FAILED''), aliceDb) \<and>
   loginRoute checkPassword devEnv ''rt-2'' 1700000000200 1700000000210 1700000000220
     ''alice@example.com'' ''not-the-password'' aliceDb =
     (Inl (errorResponse ''Invalid email or password'' 401 ''LOGIN_FAILED''), aliceDb)"
proof -
  have h1: "findByEmail aliceDb ''nobody@example.com'' = None"
    by (simp add: findByEmail_def aliceDb_def alice_def)
  have h2: "findByEmail aliceDb ''alice@example.com'' = Some alice"
    by (simp add: findByEmail_def aliceDb_def alice_def)
  have h3: "\<not> checkPassword ''not-the-password'' (user_password alice)"
    by (simp add: checkPassword_def hashOf_def alice_def)
  note th = C4_login_failures_indistinguishable [where d = aliceDb
      and emA = "''nobody@example.com''" and emB = "''alice@example.com''" and u = alice
      and vp = checkPassword and pwB = "''not-the-password''" and pwA = "''password123''"
      and e = devEnv and nidA = "''rt-1''" and tlA = 1700000000100 and taA = 1700000000110
      and trA = 1700000000120 and nidB = "''rt-2''" and tlB = 1700000000200
      and taB = 1700000000210 and trB = 1700000000220, OF h1 h2 h3]
  from th h1 h2 h3 show ?thesis by simp
qed

subsection \<open>C5: strings outside the duration grammar\<close>

text \<open>
  C5, as the specification states it, for the parser of the token issuer: a string outside
  the grammar makes \<open>parseExpiresIn\<close> raise. The string \<open>abc\<close> is outside the grammar and
  no duration comes back.
\<close>

theorem C5_parseExpiresIn_raises_counterexample:
  "matchDuration ''abc'' = None \<and>
   parseExpiresIn ''abc'' = Inl (Error ''Invalid expires format. Use format: 1s, 1m, 1h, 1d'')"
  by (simp add: parseExpiresIn_def matchDuration_def isUnit_def)

text \<open>
  C5, amended: on every string outside the duration grammar (one or more digits followed
  by one of \<open>s\<close>, \<open>m\<close>, \<open>h\<close>, \<open>d\<close>) the route-level parser \<open>parseExpirationToSeconds\<close>
  returns its default of 900 seconds (it is a total function and raises on no string),
  whereas the parser of the token issuer, \<open>parseExpiresIn\<close>, raises the error "Invalid
  expires format".
\<close>

theorem C5_unparseable_duration:
  assumes "\<not> (\<exists>ds u. s = ds @ [u] \<and> ds \<noteq> [] \<and> (\<forall>c \<in> set ds. isDigit c) \<and> isUnit u)"
  shows "parseExpirationToSeconds s = 900 \<and>
         parseExpiresIn s = Inl (Error ''Invalid expires format. Use format: 1s, 1m, 1h, 1d'')"
proof -
  from assms have "matchDuration s = None"
    using matchDuration_grammar [of s] by blast
  then show ?thesis
    by (simp add: parseExpirationToSeconds_def parseExpiresIn_def)
qed

theorem C5_unparseable_duration_witness:
  "matchDuration ''7 days'' = None \<and>
   parseExpirationToSeconds ''7 days'' = 900 \<and>
   parseExpiresIn ''7 days'' = Inl (Error ''Invalid expires format. Use format: 1s, 1m, 1h, 1d'')"
proof -
  have m: "matchDuration ''7 days'' = None"
    by (simp add: matchDuration_def isUnit_def isDigit_def)
  then have h: "\<not> (\<exists>ds u. ''7 days'' = ds @ [u] \<and> ds \<noteq> [] \<and> (\<forall>c \<in> set ds. isDigit c) \<and>
                  isUnit u)"
    using matchDuration_grammar [of "''7 days''"] by blast
  from m C5_unparseable_duration [OF h] show ?thesis by simp
qed

subsection \<open>C6: logout from all devices\<close>

text \<open>
  C6: after \<open>logoutAll\<close> for a user, the store holds no row owned by that user, so the
  query of refresh finds nothing for that user whatever the token and the time, and a
  refresh with any token whose payload names that user fails with "Invalid or expired
  refresh token"; the rows that remain are exactly the rows of the other users, in their
  order, the query for any other user answers as before, and the users are untouched.
\<close>

theorem C6_logoutAll_revokes_only_that_user:
  "(\<forall>r \<in> set (refreshTokens (logoutAll uid d)). rt_userId r \<noteq> uid) \<and>
   selectStoredToken (logoutAll uid d) tok uid tq = None \<and>
   (\<forall>p. verifyRefreshToken e tok tv = Inr p \<and> userId p = uid \<longrightarrow>
      refresh e nid tv tq ta tr tok (logoutAll uid d) =
        (Inl (Error ''Invalid or expired refresh token''), logoutAll uid d)) \<and>
   refreshTokens (logoutAll uid d) = filter (\<lambda>r. rt_userId r \<noteq> uid) (refreshTokens d) \<and>
   (uid' \<noteq> uid \<longrightarrow>
      selectStoredToken (logoutAll uid d) tok' uid' tq = selectStoredToken d tok' uid' tq) \<and>
   users (logoutAll uid d) = users d"
proof -
  have none: "selectStoredToken (logoutAll uid d) tok uid tq = None"
    by (auto simp: logoutAll_def selectStoredToken_def find_None_iff)
  have others: "selectStoredToken (logoutAll uid d) tok' uid' tq = selectStoredToken d tok' uid' tq"
    if "uid' \<noteq> uid"
    using that
    by (auto simp: logoutAll_def selectStoredToken_def find_filter intro!: find_cong)
  have fails: "refresh e nid tv tq ta tr tok (logoutAll uid d) =
        (Inl (Error ''Invalid or expired refresh token''), logoutAll uid d)"
    if "verifyRefreshToken e tok tv = Inr p \<and> userId p = uid" for p
    using that none by (simp add: refresh_def)
  from none others fails show ?thesis
    by (auto simp: logoutAll_def)
qed

theorem C6_logoutAll_revokes_only_that_user_witness:
  "refreshTokens (logoutAll ''u1'' sharedDb) =
     [\<lparr>rt_id = ''rt-2'', rt_userId = ''u2'', rt_token = devRefreshToken ''u2'' 1700000007,
       rt_expiresAt = 1700604807000\<rparr>] \<and>
   selectStoredToken sharedDb (devRefreshToken ''u1'' 1700000000) ''u1'' 1700000100010 =
     Some \<lparr>rt_id = ''rt-1'', rt_userId = ''u1'', rt_token = devRefreshToken ''u1'' 1700000000,
           rt_expiresAt = 1700604800000\<rparr> \<and>
   selectStoredToken (logoutAll ''u1'' sharedDb) (devRefreshToken ''u1'' 1700000000) ''u1''
     1700000100010 = None \<and>
   refresh devEnv ''rt-3'' 1700000100000 1700000100010 1700000100020 1700000100030
     (devRefreshToken ''u1'' 1700000000) (logoutAll ''u1'' sharedDb) =
     (Inl (Error ''Invalid or expired refresh token''), logoutAll ''u1'' sharedDb) \<and>
   selectStoredToken (logoutAll ''u1'' sharedDb) (devRefreshToken ''u2'' 1700000007) ''u2''
     1700000100010 =
     Some \<lparr>rt_id = ''rt-2'', rt_userId = ''u2'', rt_token = devRefreshToken ''u2'' 1700000007,
           rt_expiresAt = 1700604807000\<rparr>"
proof -
  have v: "verifyRefreshToken devEnv (devRefreshToken ''u1'' 1700000000) 1700000100000 =
             Inr \<lparr>userId = ''u1'', email = None, type = ''refresh'', iat = 1700000000,
                  exp = 1700604800\<rparr>"
    by (simp add: verifyRefreshToken_devEnv)
  have before: "selectStoredToken sharedDb (devRefreshToken ''u1'' 1700000000) ''u1''
       1700000100010 =
     Some \<lparr>rt_id = ''rt-1'', rt_userId = ''u1'', rt_token = devRefreshToken ''u1'' 1700000000,
           rt_expiresAt = 1700604800000\<rparr>"
    by (simp add: selectStoredToken_def sharedDb_def)
  have bob's: "selectStoredToken sharedDb (devRefreshToken ''u2'' 1700000007) ''u2''
       1700000100010 =
     Some \<lparr>rt_id = ''rt-2'', rt_userId = ''u2'', rt_token = devRefreshToken ''u2'' 1700000007,
           rt_expiresAt = 1700604807000\<rparr>"
    by (simp add: selectStoredToken_def sharedDb_def devRefreshToken_eq_iff)
  have rows: "filter (\<lambda>r. rt_userId r \<noteq> ''u1'') (refreshTokens sharedDb) =
     [\<lparr>rt_id = ''rt-2'', rt_userId = ''u2'', rt_token = devRefreshToken ''u2'' 1700000007,
       rt_expiresAt = 1700604807000\<rparr>]"
    by (simp add: sharedDb_def)
  have ne: "''u2'' \<noteq> ''u1''" by simp
  note th = C6_logoutAll_revokes_only_that_user [where uid = "''u1''" and d = sharedDb
      and tok = "devRefreshToken ''u1'' 1700000000" and tq = 1700000100010 and e = devEnv
      and tv = 1700000100000 and nid = "''rt-3''" and ta = 1700000100020
      and tr = 1700000100030 and uid' = "''u2''" and tok' = "devRefreshToken ''u2'' 1700000007"]
  from th v have "refresh devEnv ''rt-3'' 1700000100000 1700000100010 1700000100020
     1700000100030 (devRefreshToken ''u1'' 1700000000) (logoutAll ''u1'' sharedDb) =
     (Inl (Error ''Invalid or expired refresh token''), logoutAll ''u1'' sharedDb)"
    by simp
  with th before bob's rows ne show ?thesis by simp
qed

subsection \<open>C7: the token a refresh returns\<close>

text \<open>
  C7 says that a successful refresh returns a refresh token that differs from the one
  submitted. In the example of the specification, Alice registers and calls refresh at
  once: the refresh falls into the second of the registration, the payload signed is the
  same (user id, kind, issue second, expiry), and the token returned is the token
  submitted.
\<close>

theorem C7_refresh_returns_submitted_token:
  "map_sum id refreshToken (fst aliceRegistration) = Inr (devRefreshToken ''u1'' 1700000000) \<and>
   map_sum id refreshToken (fst refreshAfterRegistration) =
     Inr (devRefreshToken ''u1'' 1700000000)"
  by (simp add: aliceRegistration_eval refreshAfterRegistration_eval)

subsection \<open>C8: the permission guard\<close>

text \<open>
  C8: for a principal whose projection with roles and permissions is found, the guard for
  a resource and an action calls \<open>next()\<close> if and only if the permissions of the
  projection contain \<open>resource:action\<close>, \<open>resource:*\<close>, \<open>*:action\<close> or \<open>*:*\<close>; otherwise it
  answers 403 with the code \<open>FORBIDDEN\<close>.
\<close>

theorem C8_requirePermission_wildcards:
  assumes "findByIdWithRoles d (userId u) = Some uwr"
  shows "(requirePermission resource action (Some u) d = Next \<longleftrightarrow>
           (resource @ '':'' @ action) \<in> set (permissionNames uwr) \<or>
           (resource @ '':*'') \<in> set (permissionNames uwr) \<or>
           (''*:'' @ action) \<in> set (permissionNames uwr) \<or>
           ''*:*'' \<in> set (permissionNames uwr)) \<and>
         (requirePermission resource action (Some u) d \<noteq> Next \<longrightarrow>
           requirePermission resource action (Some u) d =
             Respond \<lparr>status = 403, code = ''FORBIDDEN'', message = ''Insufficient permissions'',
                      details = Some (resource @ '':'' @ action)\<rparr>)"
  using assms by (auto simp: requirePermission_def errorResponse_def Let_def)

theorem C8_requirePermission_wildcards_witness:
  "map_option permissionNames (findByIdWithRoles rbacDb (userId alicePayload)) =
     Some [''documents:*''] \<and>
   requirePermission ''documents'' ''delete'' (Some alicePayload) rbacDb = Next \<and>
   requirePermission ''users'' ''delete'' (Some alicePayload) rbacDb =
     Respond \<lparr>status = 403, code = ''FORBIDDEN'', message = ''Insufficient permissions'',
              details = Some ''users:delete''\<rparr>"
proof -
  have h: "findByIdWithRoles rbacDb (userId alicePayload) =
      Some \<lparr>user_id = ''u1'', user_email = ''alice@example.com'', user_username = ''alice'',
            user_name = ''alice'', user_status = ACTIVE, user_lastLoginAt = None,
            roleNames = [''editor''], permissionNames = [''documents:*'']\<rparr>"
    by (simp add: findByIdWithRoles_def rbacDb_def alice_def alicePayload_def uniq_def)
  note yes = C8_requirePermission_wildcards [OF h, of "''documents''" "''delete''"]
  note no = C8_requirePermission_wildcards [OF h, of "''users''" "''delete''"]
  from yes have a: "requirePermission ''documents'' ''delete'' (Some alicePayload) rbacDb = Next"
    by simp
  from no have b: "requirePermission ''users'' ''delete'' (Some alicePayload) rbacDb =
     Respond \<lparr>status = 403, code = ''FORBIDDEN'', message = ''Insufficient permissions'',
              details = Some ''users:delete''\<rparr>"
    by simp
  from h a b show ?thesis by simp
qed

subsection \<open>C9: the store after a failed refresh\<close>

text \<open>
  C9, as stated, covers every failure of refresh. After the redeployment with the
  unparseable \<open>JWT_EXPIRES_IN\<close> the refresh passes its four checks, deletes the redeemed
  row \<open>rt-1\<close>, and then fails when \<open>parseExpiresIn\<close> throws: the refresh has failed and the
  store, which held that row, is empty.
\<close>

theorem C9_failed_refresh_deletes_row_counterexample:
  "fst refreshAfterTypo = Inl (Error ''Invalid expires format. Use format: 1s, 1m, 1h, 1d'') \<and>
   map rt_id (refreshTokens (snd aliceLogin)) = [''rt-1''] \<and>
   refreshTokens (snd refreshAfterTypo) = []"
  by (simp add: refreshAfterTypo_eval aliceLogin_eval)

text \<open>
  C9, amended: whenever refresh fails at one of its four checks (the token does not verify
  as a refresh token, the store has no matching row, the user is not found, the user is not
  \<open>ACTIVE\<close>), the database is left exactly as it was, for deletion and insertion come after
  the checks. Whenever the four checks pass and refresh fails all the same, the redeemed
  row has been deleted and nothing else is changed; this is what happens when one of the
  two configured durations does not parse, and refresh then fails with the error of
  \<open>parseExpiresIn\<close>.
\<close>

theorem C9_failed_check_leaves_database:
  "((verifyRefreshToken e tok tv = Inl err0 \<or>
     (\<exists>p. verifyRefreshToken e tok tv = Inr p \<and>
        (selectStoredToken d tok (userId p) tq = None \<or>
         findById d (userId p) = None \<or>
         (\<exists>u. findById d (userId p) = Some u \<and> user_status u \<noteq> ACTIVE)))) \<longrightarrow>
      (\<exists>err. refresh e nid tv tq ta tr tok d = (Inl err, d))) \<and>
   (verifyRefreshToken e tok tv = Inr p \<and>
    selectStoredToken d tok (userId p) tq = Some r \<and>
    findById d (userId p) = Some u \<and> user_status u = ACTIVE \<and>
    refresh e nid tv tq ta tr tok d = (Inl err, d') \<longrightarrow>
      d' = deleteRefreshTokenById d (rt_id r) \<and> d' \<noteq> d) \<and>
   (verifyRefreshToken e tok tv = Inr p \<and>
    selectStoredToken d tok (userId p) tq = Some r \<and>
    findById d (userId p) = Some u \<and> user_status u = ACTIVE \<and>
    (parseExpiresIn (JWT_EXPIRES_IN e) = Inl perr \<or>
     parseExpiresIn (JWT_REFRESH_EXPIRES_IN e) = Inl perr) \<longrightarrow>
      refresh e nid tv tq ta tr tok d = (Inl perr, deleteRefreshTokenById d (rt_id r)))"
proof (intro conjI impI)
  assume "verifyRefreshToken e tok tv = Inl err0 \<or>
     (\<exists>p. verifyRefreshToken e tok tv = Inr p \<and>
        (selectStoredToken d tok (userId p) tq = None \<or>
         findById d (userId p) = None \<or>
         (\<exists>u. findById d (userId p) = Some u \<and> user_status u \<noteq> ACTIVE)))"
  then show "\<exists>err. refresh e nid tv tq ta tr tok d = (Inl err, d)"
    by (rule refresh_check_fails)
next
  assume a: "verifyRefreshToken e tok tv = Inr p \<and>
    selectStoredToken d tok (userId p) tq = Some r \<and>
    findById d (userId p) = Some u \<and> user_status u = ACTIVE \<and>
    refresh e nid tv tq ta tr tok d = (Inl err, d')"
  then show "d' = deleteRefreshTokenById d (rt_id r)"
    by (blast intro: refresh_late_failure)
next
  assume a: "verifyRefreshToken e tok tv = Inr p \<and>
    selectStoredToken d tok (userId p) tq = Some r \<and>
    findById d (userId p) = Some u \<and> user_status u = ACTIVE \<and>
    refresh e nid tv tq ta tr tok d = (Inl err, d')"
  then have "d' = deleteRefreshTokenById d (rt_id r)"
    by (blast intro: refresh_late_failure)
  moreover from a have "r \<in> set (refreshTokens d)"
    using selectStoredToken_SomeD by blast
  ultimately show "d' \<noteq> d"
    by (simp add: deleteRefreshTokenById_changes)
next
  assume a: "verifyRefreshToken e tok tv = Inr p \<and>
    selectStoredToken d tok (userId p) tq = Some r \<and>
    findById d (userId p) = Some u \<and> user_status u = ACTIVE \<and>
    (parseExpiresIn (JWT_EXPIRES_IN e) = Inl perr \<or>
     parseExpiresIn (JWT_REFRESH_EXPIRES_IN e) = Inl perr)"
  then have perr: "perr = Error ''Invalid expires format. Use format: 1s, 1m, 1h, 1d''"
    using parseExpiresIn_Inl by blast
  from a have checks: "verifyRefreshToken e tok tv = Inr p"
    "selectStoredToken d tok (userId p) tq = Some r"
    "findById d (userId p) = Some u" "user_status u = ACTIVE"
    by simp_all
  show "refresh e nid tv tq ta tr tok d = (Inl perr, deleteRefreshTokenById d (rt_id r))"
  proof (cases "parseExpiresIn (JWT_EXPIRES_IN e)")
    case (Inl x)
    then have "x = perr"
      using parseExpiresIn_Inl perr by blast
    with Inl checks show ?thesis
      by (simp add: refresh_def generateAccessToken_unparsed)
  next
    case (Inr n)
    with a have "parseExpiresIn (JWT_REFRESH_EXPIRES_IN e) = Inl perr"
      by auto
    with Inr checks show ?thesis
      by (simp add: refresh_def generateAccessToken_parsed generateRefreshToken_unparsed)
  qed
qed

theorem C9_failed_check_leaves_database_witness:
  "verifyRefreshToken devEnv (Opaque ''not-a-token'') 1700000000400 =
     Inl (Error ''Invalid or expired refresh token'') \<and>
   (\<exists>err. refresh devEnv ''rt-2'' 1700000000400 1700000000410 1700000000420 1700000000430
            (Opaque ''not-a-token'') (snd aliceLogin) = (Inl err, snd aliceLogin)) \<and>
   parseExpiresIn (JWT_EXPIRES_IN typoEnv) =
     Inl (Error ''Invalid expires format. Use format: 1s, 1m, 1h, 1d'') \<and>
   refresh typoEnv ''rt-2'' 1700000060000 1700000060010 1700000060020 1700000060030
     (devRefreshToken ''u1'' 1700000000) (snd aliceLogin) =
     (Inl (Error ''Invalid expires format. Use format: 1s, 1m, 1h, 1d''),
      deleteRefreshTokenById (snd aliceLogin) ''rt-1'') \<and>
   deleteRefreshTokenById (snd aliceLogin) ''rt-1'' \<noteq> snd aliceLogin"
proof -
  let ?tok = "devRefreshToken ''u1'' 1700000000"
  let ?perr = "Error ''Invalid expires format. Use format: 1s, 1m, 1h, 1d''"
  have v0: "verifyRefreshToken devEnv (Opaque ''not-a-token'') 1700000000400 =
             Inl (Error ''Invalid or expired refresh token'')"
    by (simp add: verifyRefreshToken_def verify_def)
  have u: "findById (snd aliceLogin) ''u1'' =
      Some \<lparr>user_id = ''u1'', user_email = ''alice@example.com'', user_username = ''alice'',
            user_name = ''alice'', user_status = ACTIVE,
            user_lastLoginAt = Some 1700000000100\<rparr>"
    by (rule aliceLogin_findById)
  note check = C9_failed_check_leaves_database [where e = devEnv
      and tok = "Opaque ''not-a-token''" and tv = 1700000000400 and tq = 1700000000410
      and ta = 1700000000420 and tr = 1700000000430 and nid = "''rt-2''"
      and d = "snd aliceLogin" and err0 = "Error ''Invalid or expired refresh token''"]
  note late = C9_failed_check_leaves_database [where e = typoEnv
      and tok = ?tok and tv = 1700000060000 and tq = 1700000060010 and ta = 1700000060020
      and tr = 1700000060030 and nid = "''rt-2''" and d = "snd aliceLogin"
      and p = "\<lparr>userId = ''u1'', email = None, type = ''refresh'', iat = 1700000000,
                 exp = 1700604800\<rparr>"
      and r = "\<lparr>rt_id = ''rt-1'', rt_userId = ''u1'', rt_token = ?tok,
                 rt_expiresAt = 1700604800000\<rparr>"
      and u = "\<lparr>user_id = ''u1'', user_email = ''alice@example.com'',
                 user_username = ''alice'', user_name = ''alice'', user_status = ACTIVE,
                 user_lastLoginAt = Some 1700000000100\<rparr>"
      and perr = ?perr and err = ?perr
      and d' = "deleteRefreshTokenById (snd aliceLogin) ''rt-1''"]
  from check v0 have a: "\<exists>err. refresh devEnv ''rt-2'' 1700000000400 1700000000410
      1700000000420 1700000000430 (Opaque ''not-a-token'') (snd aliceLogin) =
      (Inl err, snd aliceLogin)"
    by blast
  from late verifyRefreshToken_typoEnv aliceLogin_select u parseExpiresIn_typo
  have b: "refresh typoEnv ''rt-2'' 1700000060000 1700000060010 1700000060020 1700000060030
     ?tok (snd aliceLogin) = (Inl ?perr, deleteRefreshTokenById (snd aliceLogin) ''rt-1'')"
    by simp
  with late verifyRefreshToken_typoEnv aliceLogin_select u
  have c: "deleteRefreshTokenById (snd aliceLogin) ''rt-1'' \<noteq> snd aliceLogin"
    by simp
  from v0 a parseExpiresIn_typo b c show ?thesis
    by (intro conjI)
qed

subsection \<open>C10: the stored expiry and the signed expiry\<close>

text \<open>
  C10: the \<open>expiresAt\<close> that \<open>generateRefreshToken\<close> returns is the \<open>exp\<close> claim of the
  payload it signed, in milliseconds: both are the issue second plus the parsed duration.
  Hence after a successful register, login or refresh the store holds a row with the
  refresh token handed out whose stored expiry is the signed expiry times 1000.
\<close>

theorem C10_stored_expiry_is_signed_expiry:
  "(generateRefreshToken e uid ti = Inr (tok, expiresAt) \<longrightarrow>
      (\<exists>p. tok = sign p (getRefreshSecret e) \<and> userId p = uid \<and> iat p = ti div 1000 \<and>
           expiresAt = exp p * 1000)) \<and>
   (register hp e nuid nid ta tr userData d = (Inr res, d') \<longrightarrow>
      (\<exists>p r. refreshToken res = sign p (getRefreshSecret e) \<and> r \<in> set (refreshTokens d') \<and>
           rt_token r = refreshToken res \<and> rt_expiresAt r = exp p * 1000)) \<and>
   (login vp e nid tlog ta tr em pw d = (Inr res, d') \<longrightarrow>
      (\<exists>p r. refreshToken res = sign p (getRefreshSecret e) \<and> r \<in> set (refreshTokens d') \<and>
           rt_token r = refreshToken res \<and> rt_expiresAt r = exp p * 1000)) \<and>
   (refresh e nid tv tq ta tr old d = (Inr rres, d') \<longrightarrow>
      (\<exists>p r. refreshToken rres = sign p (getRefreshSecret e) \<and>
           r \<in> set (refreshTokens d') \<and> rt_token r = refreshToken rres \<and>
           rt_expiresAt r = exp p * 1000))"
proof (intro conjI impI)
  assume "generateRefreshToken e uid ti = Inr (tok, expiresAt)"
  then show "\<exists>p. tok = sign p (getRefreshSecret e) \<and> userId p = uid \<and> iat p = ti div 1000 \<and>
           expiresAt = exp p * 1000"
    by (auto simp: generateRefreshToken_def Let_def split: sum.splits)
next
  assume "register hp e nuid nid ta tr userData d = (Inr res, d')"
  from register_Inr_stored [OF this] stored_after_insert
  show "\<exists>p r. refreshToken res = sign p (getRefreshSecret e) \<and> r \<in> set (refreshTokens d') \<and>
           rt_token r = refreshToken res \<and> rt_expiresAt r = exp p * 1000"
    by blast
next
  assume "login vp e nid tlog ta tr em pw d = (Inr res, d')"
  from login_Inr_stored [OF this] stored_after_insert
  show "\<exists>p r. refreshToken res = sign p (getRefreshSecret e) \<and> r \<in> set (refreshTokens d') \<and>
           rt_token r = refreshToken res \<and> rt_expiresAt r = exp p * 1000"
    by blast
next
  assume "refresh e nid tv tq ta tr old d = (Inr rres, d')"
  from refresh_Inr_stored [OF this] stored_after_insert
  show "\<exists>p r. refreshToken rres = sign p (getRefreshSecret e) \<and>
           r \<in> set (refreshTokens d') \<and> rt_token r = refreshToken rres \<and>
           rt_expiresAt r = exp p * 1000"
    by blast
qed

theorem C10_stored_expiry_is_signed_expiry_witness:
  "generateRefreshToken devEnv ''u1'' 1700000000120 =
     Inr (devRefreshToken ''u1'' 1700000000, 1700604800000) \<and>
   (\<exists>p. devRefreshToken ''u1'' 1700000000 = sign p (getRefreshSecret devEnv) \<and>
        userId p = ''u1'' \<and> iat p = 1700000000 \<and> 1700604800000 = exp p * 1000) \<and>
   (\<exists>p r. devRefreshToken ''u1'' 1700000000 = sign p (getRefreshSecret devEnv) \<and>
        r \<in> set (refreshTokens (snd aliceLogin)) \<and>
        rt_token r = devRefreshToken ''u1'' 1700000000 \<and> rt_expiresAt r = exp p * 1000)"
proof -
  have g: "generateRefreshToken devEnv ''u1'' 1700000000120 =
             Inr (devRefreshToken ''u1'' 1700000000, 1700604800000)"
    by (simp add: generateRefreshToken_devEnv)
  have l: "login checkPassword devEnv ''rt-1'' 1700000000100 1700000000110 1700000000120
             ''alice@example.com'' ''password123'' aliceDb =
           (Inr \<lparr>accessToken = devAccessToken ''u1'' ''alice@example.com'' 1700000000,
                  refreshToken = devRefreshToken ''u1'' 1700000000,
                  user = \<lparr>user_id = ''u1'', user_email = ''alice@example.com'',
                    user_username = ''alice'', user_name = ''alice'', user_status = ACTIVE,
                    user_lastLoginAt = Some 1700000000100, roleNames = [],
                    permissionNames = []\<rparr>\<rparr>, snd aliceLogin)"
    using aliceLogin_eval unfolding aliceLogin_def by simp
  note th = C10_stored_expiry_is_signed_expiry [where e = devEnv and uid = "''u1''"
      and ti = 1700000000120 and tok = "devRefreshToken ''u1'' 1700000000"
      and expiresAt = 1700604800000 and vp = checkPassword and nid = "''rt-1''"
      and tlog = 1700000000100 and ta = 1700000000110 and tr = 1700000000120
      and em = "''alice@example.com''" and pw = "''password123''" and d = aliceDb
      and d' = "snd aliceLogin"
      and res = "\<lparr>accessToken = devAccessToken ''u1'' ''alice@example.com'' 1700000000,
                  refreshToken = devRefreshToken ''u1'' 1700000000,
                  user = \<lparr>user_id = ''u1'', user_email = ''alice@example.com'',
                    user_username = ''alice'', user_name = ''alice'', user_status = ACTIVE,
                    user_lastLoginAt = Some 1700000000100, roleNames = [],
                    permissionNames = []\<rparr>\<rparr>"]
  from th g have a: "\<exists>p. devRefreshToken ''u1'' 1700000000 = sign p (getRefreshSecret devEnv) \<and>
        userId p = ''u1'' \<and> iat p = 1700000000 \<and> 1700604800000 = exp p * 1000"
    by simp
  from th l have b: "\<exists>p r. devRefreshToken ''u1'' 1700000000 = sign p (getRefreshSecret devEnv) \<and>
        r \<in> set (refreshTokens (snd aliceLogin)) \<and>
        rt_token r = devRefreshToken ''u1'' 1700000000 \<and> rt_expiresAt r = exp p * 1000"
    by simp
  from g a b show ?thesis by blast
qed

end
